theory Spec2Isabelle
  imports Main
begin

section \<open>Text primitives\<close>

text \<open>
  Source text, tool output and agent output are Python \<^verbatim>\<open>str\<close> values. They are
  modelled as \<^typ>\<open>string\<close>, read as sequences of code points below 256. The
  functions below are the \<^verbatim>\<open>str\<close> methods and the \<^verbatim>\<open>in\<close> operator that
  \<^verbatim>\<open>migration_executor.py\<close> uses.
\<close>

text \<open>\<^verbatim>\<open>str.isspace\<close> on one character, for code points below 256.\<close>

definition is_space :: "char \<Rightarrow> bool" where
  "is_space c = (of_char c \<in> {9, 10, 11, 12, 13, 28, 29, 30, 31, 32, 133, 160 :: nat})"

text \<open>\<^verbatim>\<open>s.strip()\<close>\<close>

definition strip :: "string \<Rightarrow> string" where
  "strip s = rev (dropWhile is_space (rev (dropWhile is_space s)))"

text \<open>\<^verbatim>\<open>s.startswith(p)\<close>\<close>

fun startswith :: "string \<Rightarrow> string \<Rightarrow> bool" where
  "startswith s [] = True"
| "startswith [] (p # ps) = False"
| "startswith (c # s) (p # ps) = (c = p \<and> startswith s ps)"

text \<open>\<^verbatim>\<open>p in s\<close> for two strings.\<close>

fun contains :: "string \<Rightarrow> string \<Rightarrow> bool" where
  "contains p [] = (p = [])"
| "contains p (c # s) = (startswith (c # s) p \<or> contains p s)"

text \<open>\<^verbatim>\<open>s.split('\n')\<close> and \<^verbatim>\<open>'\n'.join(ls)\<close>\<close>

fun split_lines :: "string \<Rightarrow> string list" where
  "split_lines [] = [[]]"
| "split_lines (c # s) =
     (if c = CHR ''\<newline>'' then [] # split_lines s
      else (case split_lines s of [] \<Rightarrow> [[c]] | l # ls \<Rightarrow> (c # l) # ls))"

fun join_lines :: "string list \<Rightarrow> string" where
  "join_lines [] = []"
| "join_lines [l] = l"
| "join_lines (l # ls) = l @ CHR ''\<newline>'' # join_lines ls"

text \<open>
  The part of \<open>s\<close> after, and the part before, the first occurrence of \<open>p\<close>;
  \<open>None\<close> when \<open>p\<close> does not occur.
\<close>

fun text_after :: "string \<Rightarrow> string \<Rightarrow> string option" where
  "text_after p [] = (if p = [] then Some [] else None)"
| "text_after p (c # s) =
     (if startswith (c # s) p then Some (drop (length p) (c # s)) else text_after p s)"

fun text_before :: "string \<Rightarrow> string \<Rightarrow> string option" where
  "text_before p [] = (if p = [] then Some [] else None)"
| "text_before p (c # s) =
     (if startswith (c # s) p then Some []
      else map_option ((#) c) (text_before p s))"

section \<open>The syntax oracle\<close>

text \<open>
  \<^verbatim>\<open>compile(code, name, 'exec')\<close> is CPython's own parser. It is a parameter of the
  model: it returns normally, raises \<^verbatim>\<open>SyntaxError\<close> (with \<^verbatim>\<open>e.lineno\<close> and
  \<^verbatim>\<open>str(e)\<close>) or raises another exception (with \<^verbatim>\<open>str(e)\<close>).
\<close>

datatype compile_outcome = Compiled | SyntaxError "nat option" string | OtherError string

section \<open>The transformation tools as seen by the executor\<close>

datatype tool = PyUpgradeTool | Python2To3Tool | ModernizeTool

text \<open>\<^verbatim>\<open>self.tools\<close> of \<^verbatim>\<open>MigrationExecutor.__init__\<close>, and each tool's \<^verbatim>\<open>name\<close>.\<close>

definition tools :: "tool list" where
  "tools = [PyUpgradeTool, Python2To3Tool, ModernizeTool]"

fun tool_name :: "tool \<Rightarrow> string" where
  "tool_name PyUpgradeTool = ''pyupgrade''"
| "tool_name Python2To3Tool = ''python2to3''"
| "tool_name ModernizeTool = ''modernize''"

section \<open>\<^verbatim>\<open>_extract_code_from_result\<close>\<close>

text \<open>
  \<^verbatim>\<open>re.search(r"```python\n(.*?)\n```", result, re.DOTALL)\<close>, group 1. The match is
  the leftmost one and the group is lazy: the text between the first opening fence and
  the first closing fence after it. (If the first opening fence has no closing fence
  after it, no later one has.)
\<close>

definition search_python_fence :: "string \<Rightarrow> string option" where
  "search_python_fence s =
     (case text_after ''```python\<newline>'' s of
        None \<Rightarrow> None
      | Some r \<Rightarrow> text_before ''\<newline>```'' r)"

text \<open>
  The line loop of \<^verbatim>\<open>_extract_code_from_result\<close>: the flag is
  \<^verbatim>\<open>in_code_section\<close>, the result is \<^verbatim>\<open>code_lines\<close>.
\<close>

fun fence_scan :: "bool \<Rightarrow> string list \<Rightarrow> string list" where
  "fence_scan in_code_section [] = []"
| "fence_scan in_code_section (line # ls) =
     (if startswith (strip line) ''```python'' then fence_scan True ls
      else if strip line = ''```'' \<and> in_code_section then []
      else if in_code_section then line # fence_scan in_code_section ls
      else fence_scan in_code_section ls)"

definition extract_code_from_result :: "string \<Rightarrow> string option" where
  "extract_code_from_result result =
     (case search_python_fence result of
        Some g \<Rightarrow> Some g
      | None \<Rightarrow>
          (let code_lines = fence_scan False (split_lines result)
           in if code_lines \<noteq> [] then Some (join_lines code_lines) else None))"

section \<open>Environment, working tree and records\<close>

text \<open>
  One error entry of \<^verbatim>\<open>_attempt_compilation\<close>: a \<^verbatim>\<open>syntax_error\<close> with file,
  line and message, or a \<^verbatim>\<open>compilation_error\<close> with file and message.
\<close>

datatype error_info = SyntaxErrorInfo string "nat option" string | CompilationErrorInfo string string

text \<open>
  One element of the agent's \<^verbatim>\<open>intermediate_steps\<close>, a pair of action and
  observation: \<^verbatim>\<open>getattr(action, 'tool', 'unknown')\<close>, \<^verbatim>\<open>str(action)\<close> and
  \<^verbatim>\<open>str(observation)\<close>.
\<close>

record intermediate_step =
  action_tool :: string
  action_str :: string
  observation_str :: string

text \<open>
  What \<^verbatim>\<open>agent_executor.invoke\<close> does: it raises, or it returns a dict that has or
  lacks the keys \<^verbatim>\<open>output\<close> and \<^verbatim>\<open>intermediate_steps\<close>. The prompt is built from
  the file, its code, the errors and the iteration, so the agent is a function of these.
\<close>

datatype agent_response =
  AgentRaises | AgentReturns "string option" "intermediate_step list option"

record agent_request =
  req_file :: string
  req_code :: string
  req_errors :: "error_info list"
  req_iteration :: nat

text \<open>The patterns given to \<^verbatim>\<open>re.search\<close> in \<^verbatim>\<open>_extract_code_from_agent_output\<close>.\<close>

datatype pattern =
  JsonActionInput       \<comment> \<open>\<^verbatim>\<open>"action_input":\s*"((?:[^"\\]|\\.)*)(?<!\\)"\<close>\<close>
| JsonActionInputAlt    \<comment> \<open>\<^verbatim>\<open>"action_input":\s*"([^"]*(?:\\.[^"]*)*)"\<close>\<close>
| JsonFinalAnswer       \<comment> \<open>\<^verbatim>\<open>"action":\s*"Final Answer"[^}]*"action_input":\s*"((?:[^"\\]|\\.)*)"\<close>\<close>
| PythonFence           \<comment> \<open>\<^verbatim>\<open>```python\n(.*?)\n```\<close>\<close>
| PlainFence            \<comment> \<open>\<^verbatim>\<open>```\n(.*?)\n```\<close>\<close>
| PythonFenceOpen       \<comment> \<open>\<^verbatim>\<open>```python\n(.*?)```\<close>\<close>
| PlainFenceOpen        \<comment> \<open>\<^verbatim>\<open>```\n(.*?)```\<close>\<close>
| LabelledFence string  \<comment> \<open>the label, then \<^verbatim>\<open>:\s*```python\n(.*?)\n```\<close>\<close>
| CueFence string       \<comment> \<open>the cue, then \<^verbatim>\<open>.*?```python\n(.*?)\n```\<close>\<close>
| ObservationFence      \<comment> \<open>\<^verbatim>\<open>Observation:\s*.*?```python\n(.*?)\n```\<close>\<close>
| PermissiveFence       \<comment> \<open>\<^verbatim>\<open>```python\s*(.*?)\s*```\<close>\<close>

datatype re_flag = DOTALL | IGNORECASE

text \<open>
  Everything the executor calls and does not define:
  \<^item> \<open>py_compile\<close>: the builtin \<^verbatim>\<open>compile(code, name, 'exec')\<close>, given the name and
    the code;
  \<^item> \<open>tool_run\<close>: \<^verbatim>\<open>tool.run(code)\<close> of each of the three tools;
  \<^item> \<open>agent_executor\<close>: \<open>None\<close> when no agent could be initialised;
  \<^item> \<open>re_search\<close>: group 1 of \<^verbatim>\<open>re.search(pattern, text, flags)\<close>, \<open>None\<close> for no match;
  \<^item> \<open>json_loads\<close>: \<^verbatim>\<open>json.loads\<close> of the quoted string, \<open>None\<close> when it raises;
  \<^item> \<open>str_error\<close>: \<^verbatim>\<open>str(error)\<close> of an error dict.
\<close>

record env =
  py_compile :: "string \<Rightarrow> string \<Rightarrow> compile_outcome"
  tool_run :: "tool \<Rightarrow> string \<Rightarrow> string"
  agent_executor :: "(agent_request \<Rightarrow> agent_response) option"
  re_search :: "pattern \<Rightarrow> re_flag list \<Rightarrow> string \<Rightarrow> string option"
  json_loads :: "string \<Rightarrow> string option"
  str_error :: "error_info \<Rightarrow> string"

text \<open>\<^verbatim>\<open>_validate_python_code\<close>: both \<^verbatim>\<open>except\<close> clauses return \<^verbatim>\<open>False\<close>.\<close>

definition validate_python_code :: "env \<Rightarrow> string \<Rightarrow> bool" where
  "validate_python_code E code =
     (case py_compile E ''<string>'' code of
        Compiled \<Rightarrow> True
      | SyntaxError l m \<Rightarrow> False
      | OtherError m \<Rightarrow> False)"

text \<open>
  A file of the working directory holds text, or cannot be read (the message is that of
  the exception \<^verbatim>\<open>open\<close> or \<^verbatim>\<open>read\<close> raises). The listing of the directory and
  the writing of a file that was read are taken to succeed.
\<close>

datatype file_content = Text string | Unreadable string

text \<open>
  A tool or agent invocation, for the log of what a run invoked: the tool with the text it
  was given, or the agent with the file it was asked about.
\<close>

datatype call = ToolCall tool string | AgentCall string

text \<open>
  The working directory (the \<^verbatim>\<open>*.py\<close> files in the order of \<^verbatim>\<open>rglob\<close>, paths
  relative to it), with two logs the source does not keep: the invocations made and the
  files written, in order.
\<close>

record world =
  files :: "(string \<times> file_content) list"
  calls :: "call list"
  writes :: "(string \<times> string) list"

definition python_files :: "world \<Rightarrow> string list" where
  "python_files w = map fst (files w)"

definition read_file :: "world \<Rightarrow> string \<Rightarrow> file_content" where
  "read_file w p = (case map_of (files w) p of Some c \<Rightarrow> c | None \<Rightarrow> Unreadable [])"

definition write_file :: "world \<Rightarrow> string \<Rightarrow> string \<Rightarrow> world" where
  "write_file w p txt =
     w\<lparr>files := map (\<lambda>(q, c). if q = p then (q, Text txt) else (q, c)) (files w),
       writes := writes w @ [(p, txt)]\<rparr>"

definition log_call :: "world \<Rightarrow> call \<Rightarrow> world" where
  "log_call w c = w\<lparr>calls := calls w @ [c]\<rparr>"

text \<open>\<^verbatim>\<open>py_file.name\<close>: the last component of the path.\<close>

definition file_name :: "string \<Rightarrow> string" where
  "file_name p = rev (takeWhile (\<lambda>c. c \<noteq> CHR ''/'') (rev p))"

text \<open>
  An entry of \<^verbatim>\<open>tools_used\<close>: \<^verbatim>\<open>{"tool": label, "file": name, "status": "success"}\<close>
  from the agent path, \<^verbatim>\<open>{"tool": tool.name, "files_modified": n}\<close> from the manual
  fallback.
\<close>

datatype tools_used_entry = FileEntry string string | ToolEntry string nat

record agent_step =
  step_tool :: string
  step_file :: string
  step_action :: string
  step_observation :: string

record iteration_result =
  iteration :: nat
  compilation_status :: string
  compilation_attempts :: nat
  errors_found :: "error_info list"
  fixes_applied :: nat
  agent_steps :: "agent_step list"
  tools_used :: "tools_used_entry list"

section \<open>\<^verbatim>\<open>_apply_fallback_tools\<close>\<close>

definition py2_markers :: "string list" where
  "py2_markers =
     [''print '', ''raw_input'', ''urllib2'', ''ConfigParser'', ''cPickle'', ''except '', '', e:'']"

text \<open>
  One of the three blocks of \<^verbatim>\<open>_apply_fallback_tools\<close>: run the tool on
  \<^verbatim>\<open>current_code\<close>, extract, and take the result if it is non-empty, differs and
  validates. The state is \<^verbatim>\<open>current_code\<close>, \<^verbatim>\<open>code_modified\<close> and the world.
\<close>

definition try_tool :: "env \<Rightarrow> tool \<Rightarrow> string \<times> bool \<times> world \<Rightarrow> string \<times> bool \<times> world" where
  "try_tool E t st =
     (case st of (current_code, code_modified, w) \<Rightarrow>
        (let result = tool_run E t current_code;
             w' = log_call w (ToolCall t current_code)
         in case extract_code_from_result result of
              None \<Rightarrow> (current_code, code_modified, w')
            | Some modified_code \<Rightarrow>
                if modified_code \<noteq> [] \<and> modified_code \<noteq> current_code
                   \<and> validate_python_code E modified_code
                then (modified_code, True, w')
                else (current_code, code_modified, w')))"

definition apply_fallback_tools :: "env \<Rightarrow> string \<Rightarrow> string \<Rightarrow> world \<Rightarrow> bool \<times> world" where
  "apply_fallback_tools E py_file original_code w =
     (let st0 = (original_code, False, w);
          st1 = (if list_ex (\<lambda>p. contains p original_code) py2_markers
                 then try_tool E (tools ! 1) st0 else st0);
          st2 = try_tool E (tools ! 0) st1;
          st3 = try_tool E (tools ! 2) st2
      in case st3 of (current_code, code_modified, w') \<Rightarrow>
           if code_modified then (True, write_file w' py_file current_code) else (False, w'))"

section \<open>\<^verbatim>\<open>_extract_code_from_agent_output\<close>\<close>

text \<open>\<^verbatim>\<open>s.replace(old, new)\<close> for a non-empty \<open>old\<close>, and \<^verbatim>\<open>s.lower()\<close>.\<close>

function replace :: "string \<Rightarrow> string \<Rightarrow> string \<Rightarrow> string" where
  "replace old new [] = []"
| "replace old new (c # s) =
     (if old \<noteq> [] \<and> startswith (c # s) old
      then new @ replace old new (drop (length old) (c # s))
      else c # replace old new s)"
  by pat_completeness auto
termination
  by (relation "measure (\<lambda>(old, new, s). length s)") (auto simp: Suc_diff_le diff_less_Suc)

definition lower_char :: "char \<Rightarrow> char" where
  "lower_char c =
     (let n = (of_char c :: nat)
      in if (65 \<le> n \<and> n \<le> 90) \<or> (192 \<le> n \<and> n \<le> 222 \<and> n \<noteq> 215)
         then char_of (n + 32) else c)"

definition lower :: "string \<Rightarrow> string" where
  "lower s = map lower_char s"

definition json_patterns :: "pattern list" where
  "json_patterns = [JsonActionInput, JsonActionInputAlt, JsonFinalAnswer]"

definition code_patterns :: "pattern list" where
  "code_patterns = [PythonFence, PlainFence, PythonFenceOpen, PlainFenceOpen]"

definition patterns :: "pattern list" where
  "patterns =
     [PythonFence, PlainFence,
      LabelledFence ''FIXED CODE'', LabelledFence ''RESULT'',
      LabelledFence ''CORRECTED VERSION'', LabelledFence ''MIGRATED CODE'',
      CueFence ''Final Answer'',
      CueFence (''Here'' @ [CHR 0x27] @ ''s the corrected version''),
      CueFence (''Here'' @ [CHR 0x27] @ ''s the final code''),
      CueFence (''Here'' @ [CHR 0x27] @ ''s the corrected Python 3 code'')]"

definition tool_output_patterns :: "pattern list" where
  "tool_output_patterns = [ObservationFence]"

text \<open>
  The loops \<^verbatim>\<open>for pattern in ...\<close>: the first pattern that matches with a group
  whose stripped text is non-empty and validates.
\<close>

fun first_valid_match :: "env \<Rightarrow> re_flag list \<Rightarrow> pattern list \<Rightarrow> string \<Rightarrow> string option" where
  "first_valid_match E fl [] s = None"
| "first_valid_match E fl (p # ps) s =
     (case re_search E p fl s of
        None \<Rightarrow> first_valid_match E fl ps s
      | Some g \<Rightarrow>
          (let code = strip g
           in if code \<noteq> [] \<and> validate_python_code E code then Some code
              else first_valid_match E fl ps s))"

text \<open>
  The decoding of the JSON string: \<^verbatim>\<open>json.loads\<close>, and the chain of
  \<^verbatim>\<open>replace\<close> when it raises.
\<close>

definition decode_json_content :: "env \<Rightarrow> string \<Rightarrow> string" where
  "decode_json_content E json_content =
     (case json_loads E ([CHR 0x22] @ json_content @ [CHR 0x22]) of
        Some decoded_content \<Rightarrow> decoded_content
      | None \<Rightarrow>
          replace [CHR 0x5C, CHR ''r''] [CHR 0x0D]
            (replace [CHR 0x5C, CHR ''t''] [CHR 0x09]
              (replace [CHR 0x5C, CHR 0x5C] [CHR 0x5C]
                (replace [CHR 0x5C, CHR 0x22] [CHR 0x22]
                  (replace [CHR 0x5C, CHR ''n''] [CHR 0x0A] json_content)))))"

fun json_stage :: "env \<Rightarrow> pattern list \<Rightarrow> string \<Rightarrow> string option" where
  "json_stage E [] agent_output = None"
| "json_stage E (p # ps) agent_output =
     (case re_search E p [DOTALL] agent_output of
        None \<Rightarrow> json_stage E ps agent_output
      | Some json_content \<Rightarrow>
          (case first_valid_match E [DOTALL] code_patterns (decode_json_content E json_content) of
             Some code \<Rightarrow> Some code
           | None \<Rightarrow> json_stage E ps agent_output))"

definition start_indicators :: "string list" where
  "start_indicators = [''#!/usr/bin/env python'', ''def '', ''class '', ''import '', ''from '']"

definition code_keywords :: "string list" where
  "code_keywords =
     [''if '', ''else:'', ''elif '', ''for '', ''while '', ''try:'', ''except'', ''finally:'',
      ''with '', ''return'', ''yield'', ''pass'', ''break'', ''continue'']"

text \<open>
  The characters that end the heuristic capture. The source lists three emoji as well;
  they lie outside the code points modelled and never occur in a line here.
\<close>

definition prose_marks :: "string list" where
  "prose_marks = [''*'', ''-'', ''#'']"

text \<open>The heuristic line loop: the flag is \<^verbatim>\<open>in_code\<close>, the result \<^verbatim>\<open>code_lines\<close>.\<close>

fun collect_code_lines :: "bool \<Rightarrow> string list \<Rightarrow> string list" where
  "collect_code_lines in_code [] = []"
| "collect_code_lines in_code (line # ls) =
     (let stripped_line = strip line
      in if list_ex (\<lambda>i. contains i line) start_indicators
         then line # collect_code_lines True ls
         else if in_code then
           (if stripped_line = [] \<or> startswith line ''    '' \<or> startswith line [CHR 0x09]
               \<or> startswith stripped_line ''#''
               \<or> list_ex (\<lambda>k. contains k stripped_line) code_keywords
            then line # collect_code_lines in_code ls
            else if stripped_line \<noteq> [] \<and> \<not> list_ex (\<lambda>m. contains m stripped_line) prose_marks
            then line # collect_code_lines in_code ls
            else [])
         else collect_code_lines in_code ls)"

definition extract_code_from_agent_output :: "env \<Rightarrow> string \<Rightarrow> string option" where
  "extract_code_from_agent_output E agent_output =
     (case json_stage E json_patterns agent_output of
        Some code \<Rightarrow> Some code
      | None \<Rightarrow>
     (case first_valid_match E [DOTALL, IGNORECASE] patterns agent_output of
        Some code \<Rightarrow> Some code
      | None \<Rightarrow>
     (case first_valid_match E [DOTALL, IGNORECASE] tool_output_patterns agent_output of
        Some code \<Rightarrow> Some code
      | None \<Rightarrow>
     (let code_lines = collect_code_lines False (split_lines agent_output);
          code = join_lines code_lines
      in if code_lines \<noteq> [] \<and> validate_python_code E code then Some code
         else if contains ''```python'' (lower agent_output) then
           (case re_search E PermissiveFence [DOTALL, IGNORECASE] agent_output of
              None \<Rightarrow> None
            | Some g \<Rightarrow>
                (let potential_code = strip g
                 in if validate_python_code E potential_code then Some potential_code
                    else None))
         else None))))"

section \<open>\<^verbatim>\<open>_execute_with_langchain_agent\<close>\<close>

text \<open>
  The three places that call \<^verbatim>\<open>_apply_fallback_tools\<close> differ in the label of the
  entry they append to \<^verbatim>\<open>tools_used\<close>. The state is \<^verbatim>\<open>fixes_applied\<close>, the
  iteration result and the world.
\<close>

definition fallback_for_file ::
  "env \<Rightarrow> string \<Rightarrow> string \<Rightarrow> string \<Rightarrow> nat \<times> iteration_result \<times> world
     \<Rightarrow> nat \<times> iteration_result \<times> world" where
  "fallback_for_file E label py_file original_code st =
     (case st of (fixes, ir, w) \<Rightarrow>
        (case apply_fallback_tools E py_file original_code w of
           (True, w') \<Rightarrow>
             (fixes + 1,
              ir\<lparr>tools_used := tools_used ir @ [FileEntry label (file_name py_file)]\<rparr>, w')
         | (False, w') \<Rightarrow> (fixes, ir, w')))"

definition record_steps :: "string \<Rightarrow> intermediate_step list option \<Rightarrow> agent_step list" where
  "record_steps name steps =
     (case steps of
        None \<Rightarrow> []
      | Some ss \<Rightarrow>
          map (\<lambda>s. \<lparr>step_tool = action_tool s, step_file = name, step_action = action_str s,
                    step_observation = take 200 (observation_str s)\<rparr>) ss)"

text \<open>The body of \<^verbatim>\<open>for py_file in python_files\<close>.\<close>

definition agent_fix_file ::
  "env \<Rightarrow> (agent_request \<Rightarrow> agent_response) \<Rightarrow> error_info list \<Rightarrow> nat \<Rightarrow> string
     \<Rightarrow> nat \<times> iteration_result \<times> world \<Rightarrow> nat \<times> iteration_result \<times> world" where
  "agent_fix_file E agent errors iter py_file st =
     (case st of (fixes, ir, w) \<Rightarrow>
        (case read_file w py_file of
           Unreadable m \<Rightarrow> st
         | Text original_code \<Rightarrow>
             (let w1 = log_call w (AgentCall py_file)
              in case agent \<lparr>req_file = py_file, req_code = original_code,
                             req_errors = errors, req_iteration = iter\<rparr> of
                   AgentRaises \<Rightarrow>
                     fallback_for_file E ''fallback_tools'' py_file original_code (fixes, ir, w1)
                 | AgentReturns None steps \<Rightarrow>
                     fallback_for_file E ''fallback_no_output'' py_file original_code (fixes, ir, w1)
                 | AgentReturns (Some agent_output) steps \<Rightarrow>
                     (case extract_code_from_agent_output E agent_output of
                        None \<Rightarrow>
                          fallback_for_file E ''fallback_after_agent'' py_file original_code
                            (fixes, ir, w1)
                      | Some modified_code \<Rightarrow>
                          if modified_code \<noteq> [] \<and> modified_code \<noteq> original_code then
                            (if validate_python_code E modified_code
                             then (fixes + 1,
                                   ir\<lparr>agent_steps :=
                                        agent_steps ir @ record_steps (file_name py_file) steps\<rparr>,
                                   write_file w1 py_file modified_code)
                             else (fixes, ir, w1))
                          else if modified_code = [] then
                            fallback_for_file E ''fallback_after_agent'' py_file original_code
                              (fixes, ir, w1)
                          else (fixes, ir, w1)))))"

definition execute_with_langchain_agent ::
  "env \<Rightarrow> (agent_request \<Rightarrow> agent_response) \<Rightarrow> error_info list \<Rightarrow> nat
     \<Rightarrow> iteration_result \<Rightarrow> world \<Rightarrow> nat \<times> iteration_result \<times> world" where
  "execute_with_langchain_agent E agent errors iter ir w =
     fold (agent_fix_file E agent errors iter) (python_files w) (0, ir, w)"

section \<open>\<^verbatim>\<open>_execute_manual_fallback\<close>\<close>

definition tool_sequence :: "env \<Rightarrow> error_info list \<Rightarrow> tool list" where
  "tool_sequence E errors =
     (if list_ex (\<lambda>e. contains ''print'' (str_error E e) \<or> contains ''raw_input'' (str_error E e))
           errors
      then [tools ! 1] else [])
     @ [tools ! 0]
     @ (if list_ex (\<lambda>e. contains ''import'' (str_error E e)) errors then [tools ! 2] else [])"

text \<open>The body of the inner loop; the state is \<^verbatim>\<open>files_modified\<close> and the world.\<close>

definition manual_fix_file :: "env \<Rightarrow> tool \<Rightarrow> string \<Rightarrow> nat \<times> world \<Rightarrow> nat \<times> world" where
  "manual_fix_file E t py_file st =
     (case st of (files_modified, w) \<Rightarrow>
        (case read_file w py_file of
           Unreadable m \<Rightarrow> st
         | Text original_code \<Rightarrow>
             (let result = tool_run E t original_code;
                  w1 = log_call w (ToolCall t original_code)
              in case extract_code_from_result result of
                   None \<Rightarrow> (files_modified, w1)
                 | Some modified_code \<Rightarrow>
                     if modified_code \<noteq> [] \<and> modified_code \<noteq> original_code
                     then (files_modified + 1, write_file w1 py_file modified_code)
                     else (files_modified, w1))))"

text \<open>The body of \<^verbatim>\<open>for tool in tool_sequence\<close>.\<close>

definition manual_apply_tool ::
  "env \<Rightarrow> tool \<Rightarrow> nat \<times> iteration_result \<times> world \<Rightarrow> nat \<times> iteration_result \<times> world" where
  "manual_apply_tool E t st =
     (case st of (fixes, ir, w) \<Rightarrow>
        (case fold (manual_fix_file E t) (python_files w) (0, w) of
           (files_modified, w') \<Rightarrow>
             if files_modified > 0
             then (fixes + files_modified,
                   ir\<lparr>tools_used := tools_used ir @ [ToolEntry (tool_name t) files_modified]\<rparr>,
                   w')
             else (fixes, ir, w')))"

definition execute_manual_fallback ::
  "env \<Rightarrow> error_info list \<Rightarrow> iteration_result \<Rightarrow> world \<Rightarrow> nat \<times> iteration_result \<times> world" where
  "execute_manual_fallback E errors ir w =
     fold (manual_apply_tool E) (tool_sequence E errors) (0, ir, w)"

section \<open>\<^verbatim>\<open>_attempt_compilation\<close>\<close>

definition check_file :: "env \<Rightarrow> string \<times> file_content \<Rightarrow> error_info list" where
  "check_file E pc =
     (case pc of
        (p, Unreadable m) \<Rightarrow> [CompilationErrorInfo p m]
      | (p, Text code) \<Rightarrow>
          (case py_compile E p code of
             Compiled \<Rightarrow> []
           | SyntaxError l m \<Rightarrow> [SyntaxErrorInfo p l m]
           | OtherError m \<Rightarrow> [CompilationErrorInfo p m]))"

text \<open>The status and the errors of the compilation result.\<close>

definition attempt_compilation :: "env \<Rightarrow> world \<Rightarrow> string \<times> error_info list" where
  "attempt_compilation E w =
     (if python_files w = [] then (''no_python_files'', [])
      else (let errors = concat (map (check_file E) (files w))
            in if errors \<noteq> [] then (''failed'', errors) else (''success'', [])))"

section \<open>\<^verbatim>\<open>_execute_iteration_with_agent\<close> and \<^verbatim>\<open>execute_migration\<close>\<close>

text \<open>
  One iteration. \<^verbatim>\<open>self.successful_fixes\<close> is passed in and returned with the world.
\<close>

definition execute_iteration_with_agent ::
  "env \<Rightarrow> nat \<Rightarrow> tools_used_entry list \<Rightarrow> world
     \<Rightarrow> iteration_result \<times> tools_used_entry list \<times> world" where
  "execute_iteration_with_agent E iter fixes_log w =
     (let ir0 = \<lparr>iteration = iter, compilation_status = ''unknown'', compilation_attempts = 0,
                 errors_found = [], fixes_applied = 0, agent_steps = [], tools_used = []\<rparr>
      in case attempt_compilation E w of (status, errors) \<Rightarrow>
        (let ir1 = ir0\<lparr>compilation_attempts := 1, compilation_status := status\<rparr>
         in if status = ''success'' then (ir1, fixes_log, w)
            else (let ir2 = ir1\<lparr>errors_found := errors\<rparr>
                  in if errors = [] then (ir2, fixes_log, w)
                     else (case (case agent_executor E of
                                   Some agent \<Rightarrow> execute_with_langchain_agent E agent errors iter ir2 w
                                 | None \<Rightarrow> execute_manual_fallback E errors ir2 w) of
                       (fixes, ir3, w') \<Rightarrow>
                         (let ir4 = ir3\<lparr>fixes_applied := fixes\<rparr>
                          in if fixes > 0 then
                               (case attempt_compilation E w' of (final_status, final_errors) \<Rightarrow>
                                  (let ir5 = ir4\<lparr>compilation_attempts := compilation_attempts ir4 + 1,
                                                 compilation_status := final_status\<rparr>
                                   in (ir5,
                                       (if final_status = ''success''
                                        then fixes_log @ tools_used ir5
                                        else if length final_errors < length errors
                                        then fixes_log @ tools_used ir5
                                        else fixes_log),
                                       w')))
                             else (ir4, fixes_log, w'))))))"

record migration_results =
  iterations :: "iteration_result list"
  final_status :: string
  successful_fixes :: "tools_used_entry list"
  total_compilation_attempts :: nat
  agent_available :: bool

text \<open>
  \<^verbatim>\<open>for iteration in range(1, self.max_iterations + 1)\<close> with its two \<^verbatim>\<open>break\<close>s and
  its \<^verbatim>\<open>else\<close>: the first argument counts the rounds left, the second is
  \<^verbatim>\<open>iteration\<close>.
\<close>

fun migration_loop ::
  "env \<Rightarrow> nat \<Rightarrow> nat \<Rightarrow> migration_results \<times> tools_used_entry list \<times> world
     \<Rightarrow> migration_results \<times> tools_used_entry list \<times> world" where
  "migration_loop E 0 iter (results, fixes_log, w) =
     (results\<lparr>final_status := ''max_iterations_reached''\<rparr>, fixes_log, w)"
| "migration_loop E (Suc n) iter (results, fixes_log, w) =
     (case execute_iteration_with_agent E iter fixes_log w of
        (ir, fixes_log', w') \<Rightarrow>
          (let results1 = results\<lparr>iterations := iterations results @ [ir],
                                  total_compilation_attempts :=
                                    total_compilation_attempts results + compilation_attempts ir\<rparr>
           in if compilation_status ir = ''success''
              then (results1\<lparr>final_status := ''success''\<rparr>, fixes_log', w')
              else if fixes_applied ir = 0 then (results1, fixes_log', w')
              else migration_loop E n (Suc iter) (results1, fixes_log', w')))"

text \<open>
  What a run leaves: the returned results, the tree copied to
  \<^verbatim>\<open>final_migrated_code\<close> by \<^verbatim>\<open>_finalize_migrated_files\<close>, and the world.
\<close>

record migration_output =
  results :: migration_results
  final_migrated_code :: "(string \<times> file_content) list"
  final_world :: world

text \<open>
  \<^verbatim>\<open>execute_migration\<close>: the working directory is a fresh copy of the source
  directory, and \<^verbatim>\<open>max_iterations\<close> is a Python integer.
\<close>

definition execute_migration ::
  "env \<Rightarrow> int \<Rightarrow> (string \<times> file_content) list \<Rightarrow> migration_output" where
  "execute_migration E max_iterations source_dir =
     (let working_dir = \<lparr>files = source_dir, calls = [], writes = []\<rparr>;
          results0 = \<lparr>iterations = [], final_status = ''unknown'', successful_fixes = [],
                      total_compilation_attempts = 0,
                      agent_available = (agent_executor E \<noteq> None)\<rparr>
      in case migration_loop E (nat max_iterations) 1 (results0, [], working_dir) of
           (results1, fixes_log, w) \<Rightarrow>
             \<lparr>results = results1\<lparr>successful_fixes := fixes_log\<rparr>,
              final_migrated_code = files w,
              final_world = w\<rparr>)"

section \<open>The three tools\<close>

text \<open>
  Each tool's \<^verbatim>\<open>_run\<close> is one \<^verbatim>\<open>try\<close> whose \<^verbatim>\<open>except Exception\<close> returns a
  report. What a tool calls outside the repository (the parser, \<^verbatim>\<open>subprocess.run\<close>,
  the temporary file, \<^verbatim>\<open>lib2to3\<close>, \<^verbatim>\<open>re\<close>) is a parameter that returns a value or
  raises: a raise is \<open>Inl\<close> of the exception, which carries \<^verbatim>\<open>str(e)\<close>. The reports
  are the source's texts without their leading emoji.
\<close>

datatype exn =
  TimeoutExpired string | FileNotFoundError string | ImportError string
| PySyntaxError string | OtherException string

fun exn_str :: "exn \<Rightarrow> string" where
  "exn_str (TimeoutExpired m) = m"
| "exn_str (FileNotFoundError m) = m"
| "exn_str (ImportError m) = m"
| "exn_str (PySyntaxError m) = m"
| "exn_str (OtherException m) = m"

text \<open>
  The argument \<^verbatim>\<open>code\<close>: a string, or an object that is not one. The test
  \<^verbatim>\<open>not code or not isinstance(code, str)\<close> first asks the object for its truth
  value, which returns or raises; a string never raises there.
\<close>

datatype py_arg = Str string | NotStr "exn + bool"

text \<open>\<^verbatim>\<open>try: body finally: cleanup\<close>: an exception of the cleanup replaces the outcome.\<close>

definition with_cleanup :: "exn + 'a \<Rightarrow> exn + unit \<Rightarrow> exn + 'a" where
  "with_cleanup body cleanup = (case cleanup of Inl e \<Rightarrow> Inl e | Inr u \<Rightarrow> body)"

text \<open>\<^verbatim>\<open>str(n)\<close> for a natural number, and \<^verbatim>\<open>sep.join(xs)\<close>.\<close>

function dec :: "nat \<Rightarrow> string" where
  "dec n = (if n < 10 then [char_of (48 + n)] else dec (n div 10) @ [char_of (48 + n mod 10)])"
  by pat_completeness auto
termination
  by (relation "measure id") auto

declare dec.simps [simp del]

fun join_with :: "string \<Rightarrow> string list \<Rightarrow> string" where
  "join_with sep [] = []"
| "join_with sep [x] = x"
| "join_with sep (x # xs) = x @ sep @ join_with sep xs"

text \<open>A fenced block: \<^verbatim>\<open>```python\n{code}\n```\<close>.\<close>

definition fence :: "string \<Rightarrow> string" where
  "fence code = ''```python\<newline>'' @ code @ ''\<newline>```''"

definition invalid_input_report :: string where
  "invalid_input_report = ''Error: Invalid input. Please provide Python code as a string.''"

definition empty_code_report :: string where
  "empty_code_report = ''Error: Empty code provided.''"

subsection \<open>\<^verbatim>\<open>PyUpgradeTool\<close>\<close>

text \<open>
  \<^item> \<open>pu_target_version\<close>: \<^verbatim>\<open>self.target_version\<close>;
  \<^item> \<open>pu_ast_parse\<close>: \<^verbatim>\<open>ast.parse(code)\<close>;
  \<^item> \<open>pu_which\<close>: whether \<^verbatim>\<open>shutil.which("pyupgrade")\<close> finds the command;
  \<^item> \<open>pu_probe\<close>: the return code of \<^verbatim>\<open>python -m pyupgrade --help\<close>;
  \<^item> \<open>pu_write_temp\<close>: creating and writing the temporary file;
  \<^item> \<open>pu_subprocess\<close>: the return code and \<^verbatim>\<open>stderr\<close> of the pyupgrade command;
  \<^item> \<open>pu_read_temp\<close>: reading the temporary file back;
  \<^item> \<open>pu_cleanup\<close>: removing the temporary file;
  \<^item> \<open>pu_pattern_based_fallback\<close>: \<^verbatim>\<open>_pattern_based_fallback\<close>, built on \<^verbatim>\<open>re.sub\<close>.
\<close>

record pyupgrade_backend =
  pu_target_version :: string
  pu_ast_parse :: "string \<Rightarrow> exn + unit"
  pu_which :: bool
  pu_probe :: "exn + int"
  pu_write_temp :: "string \<Rightarrow> exn + unit"
  pu_subprocess :: "string \<Rightarrow> exn + int \<times> string"
  pu_read_temp :: "string \<Rightarrow> exn + string"
  pu_cleanup :: "exn + unit"
  pu_pattern_based_fallback :: "string \<Rightarrow> exn + string"

text \<open>\<^verbatim>\<open>_check_pyupgrade_available\<close>: only two exceptions are caught.\<close>

definition check_pyupgrade_available :: "pyupgrade_backend \<Rightarrow> exn + bool" where
  "check_pyupgrade_available B =
     (if pu_which B then Inr True
      else (case pu_probe B of
              Inr returncode \<Rightarrow> Inr (returncode = 0)
            | Inl (TimeoutExpired m) \<Rightarrow> Inr False
            | Inl (FileNotFoundError m) \<Rightarrow> Inr False
            | Inl e \<Rightarrow> Inl e))"

text \<open>
  \<^verbatim>\<open>_run_pyupgrade_on_code\<close>: the updated code, whether it changed, and an error
  message. Every exception is caught.
\<close>

definition run_pyupgrade_on_code :: "pyupgrade_backend \<Rightarrow> string \<Rightarrow> string \<times> bool \<times> string" where
  "run_pyupgrade_on_code B code =
     (case (case pu_write_temp B code of
              Inl e \<Rightarrow> Inl e
            | Inr u \<Rightarrow>
                with_cleanup
                  (case pu_subprocess B code of
                     Inl e \<Rightarrow> Inl e
                   | Inr (returncode, stderr) \<Rightarrow>
                       (case pu_read_temp B code of
                          Inl e \<Rightarrow> Inl e
                        | Inr updated_code \<Rightarrow>
                            if returncode = 0 then Inr (updated_code, updated_code \<noteq> code, [])
                            else if returncode = 1 then Inr (updated_code, True, [])
                            else Inr (code, False,
                                      ''pyupgrade error: ''
                                      @ (if stderr \<noteq> [] then stderr
                                         else ''Unknown pyupgrade error''))))
                  (pu_cleanup B)) of
        Inr r \<Rightarrow> r
      | Inl (TimeoutExpired m) \<Rightarrow> (code, False, ''pyupgrade command timed out'')
      | Inl e \<Rightarrow> (code, False, ''Error running pyupgrade: '' @ exn_str e))"

definition pyupgrade_changed_report :: "string \<Rightarrow> string \<Rightarrow> string" where
  "pyupgrade_changed_report tv updated_code =
     ''PyUpgrade Modernization Complete\<newline>\<newline>Target Version: Python '' @ tv
     @ ''\<newline>\<newline>Modernized Code:\<newline>'' @ fence updated_code
     @ ''\<newline>\<newline>Code has been successfully modernized using pyupgrade tool.''"

definition pyupgrade_unchanged_report :: "string \<Rightarrow> string \<Rightarrow> string" where
  "pyupgrade_unchanged_report tv code =
     ''PyUpgrade Analysis Complete - No changes needed\<newline>\<newline>Target Version: Python '' @ tv
     @ ''\<newline>\<newline>The code is already using modern Python '' @ tv @ '' syntax patterns.''
     @ ''\<newline>\<newline>Original code:\<newline>'' @ fence code"

text \<open>The body of the \<^verbatim>\<open>try\<close> of \<^verbatim>\<open>PyUpgradeTool._run\<close>, and \<^verbatim>\<open>_run\<close>.\<close>

definition pyupgrade_try :: "pyupgrade_backend \<Rightarrow> py_arg \<Rightarrow> exn + string" where
  "pyupgrade_try B arg =
     (case arg of
        NotStr truth \<Rightarrow>
          (case truth of Inl e \<Rightarrow> Inl e | Inr b \<Rightarrow> Inr invalid_input_report)
      | Str code0 \<Rightarrow>
          if code0 = [] then Inr invalid_input_report
          else (let code = strip code0
                in if code = [] then Inr empty_code_report
                   else (case pu_ast_parse B code of
                           Inl (PySyntaxError m) \<Rightarrow> Inr (''Error: Invalid Python syntax: '' @ m)
                         | Inl e \<Rightarrow> Inl e
                         | Inr u \<Rightarrow>
                             (case check_pyupgrade_available B of
                                Inl e \<Rightarrow> Inl e
                              | Inr False \<Rightarrow> pu_pattern_based_fallback B code
                              | Inr True \<Rightarrow>
                                  (case run_pyupgrade_on_code B code of
                                     (updated_code, was_changed, error_msg) \<Rightarrow>
                                       if error_msg \<noteq> [] then Inr (''Error: '' @ error_msg)
                                       else if was_changed
                                       then Inr (pyupgrade_changed_report
                                                   (pu_target_version B) updated_code)
                                       else Inr (pyupgrade_unchanged_report
                                                   (pu_target_version B) code))))))"

definition pyupgrade_run :: "pyupgrade_backend \<Rightarrow> py_arg \<Rightarrow> exn + string" where
  "pyupgrade_run B arg =
     (case pyupgrade_try B arg of
        Inr report \<Rightarrow> Inr report
      | Inl e \<Rightarrow> Inr (''Error during code modernization: '' @ exn_str e))"

subsection \<open>\<^verbatim>\<open>Python2To3Tool\<close>\<close>

text \<open>
  \<^item> \<open>p23_detect\<close>: \<^verbatim>\<open>_detect_python2_patterns\<close>, built on \<^verbatim>\<open>re.search\<close>;
  \<^item> \<open>p23_setup\<close>: the imports from \<^verbatim>\<open>lib2to3\<close> and the construction of the
    \<^verbatim>\<open>RefactoringTool\<close>;
  \<^item> \<open>p23_refactor_string\<close>: \<^verbatim>\<open>rt.refactor_string(code, '<string>')\<close>, \<open>None\<close> for
    \<^verbatim>\<open>None\<close>, else \<^verbatim>\<open>str\<close> of the tree;
  \<^item> \<open>p23_pattern_based_migration\<close>: \<^verbatim>\<open>_pattern_based_migration\<close>, built on
    \<^verbatim>\<open>re.sub\<close>: the migrated code and the list of changes.
\<close>

record python2to3_backend =
  p23_detect :: "string \<Rightarrow> exn + string list"
  p23_setup :: "exn + unit"
  p23_refactor_string :: "string \<Rightarrow> exn + string option"
  p23_pattern_based_migration :: "string \<Rightarrow> exn + string \<times> string list"

text \<open>\<^verbatim>\<open>_use_lib2to3\<close>: every exception is caught.\<close>

definition use_lib2to3 :: "python2to3_backend \<Rightarrow> string \<Rightarrow> string \<times> bool \<times> string" where
  "use_lib2to3 B code =
     (case p23_setup B of
        Inl (ImportError m) \<Rightarrow> (code, False, ''lib2to3 not available'')
      | Inl e \<Rightarrow> (code, False, ''lib2to3 error: '' @ exn_str e)
      | Inr u \<Rightarrow>
          (case p23_refactor_string B code of
             Inl e \<Rightarrow> (code, False, ''lib2to3 refactoring failed: '' @ exn_str e)
           | Inr None \<Rightarrow> (code, False, [])
           | Inr (Some migrated) \<Rightarrow> (migrated, migrated \<noteq> code, [])))"

definition after_migration_advice :: string where
  "after_migration_advice =
     ''IMPORTANT: After migration, please:\<newline>1. Test your code thoroughly\<newline>''
     @ ''2. Check for any remaining compatibility issues\<newline>''
     @ ''3. Update your shebang line to use python3\<newline>''
     @ ''4. Update your requirements.txt for Python 3 compatible packages''"

text \<open>\<^verbatim>\<open>"\n".join(f"{i+1}. {change}" for i, change in enumerate(changes_made))\<close>\<close>

fun numbered :: "nat \<Rightarrow> string list \<Rightarrow> string list" where
  "numbered i [] = []"
| "numbered i (change # cs) = (dec (i + 1) @ ''. '' @ change) # numbered (i + 1) cs"

definition p23_compatible_report :: "string \<Rightarrow> string" where
  "p23_compatible_report code =
     ''Python 2 to 3 Migration Analysis\<newline>\<newline>''
     @ ''The provided code appears to already be Python 3 compatible.\<newline>''
     @ ''No Python 2 specific patterns detected.\<newline>\<newline>Original code:\<newline>''
     @ fence code
     @ ''\<newline>\<newline>No migration needed - code is already Python 3 compatible!''"

definition p23_pattern_report :: "string list \<Rightarrow> string \<Rightarrow> string list \<Rightarrow> string" where
  "p23_pattern_report python2_patterns migrated_code changes_made =
     ''Python 2 to 3 Migration Complete\<newline>\<newline>Issues Fixed: ''
     @ dec (length changes_made)
     @ ''\<newline>Python 2 Indicators Found: '' @ join_with '', '' python2_patterns
     @ ''\<newline>\<newline>Migrated Code:\<newline>'' @ fence migrated_code
     @ ''\<newline>\<newline>Migration Changes Applied:\<newline>\<newline>''
     @ join_with ''\<newline>'' (numbered 0 changes_made)
     @ ''\<newline>\<newline>'' @ after_migration_advice"

definition p23_no_fix_report :: "string list \<Rightarrow> string \<Rightarrow> string" where
  "p23_no_fix_report python2_patterns code =
     ''Python 2 to 3 Migration Analysis Complete\<newline>\<newline>''
     @ ''No automatic fixes could be applied, but Python 2 patterns were detected: ''
     @ join_with '', '' python2_patterns
     @ ''\<newline>\<newline>Original code:\<newline>'' @ fence code
     @ ''\<newline>\<newline>Manual review may be needed for complete migration.''"

definition p23_lib2to3_report :: "string list \<Rightarrow> string \<Rightarrow> string" where
  "p23_lib2to3_report python2_patterns migrated_code =
     ''Python 2 to 3 Migration Complete (using lib2to3)\<newline>\<newline>''
     @ ''Python 2 Indicators Found: '' @ join_with '', '' python2_patterns
     @ ''\<newline>\<newline>Migrated Code:\<newline>'' @ fence migrated_code
     @ ''\<newline>\<newline>Code has been successfully migrated using the lib2to3 refactoring tool.''
     @ ''\<newline>\<newline>'' @ after_migration_advice"

definition python2to3_try :: "python2to3_backend \<Rightarrow> py_arg \<Rightarrow> exn + string" where
  "python2to3_try B arg =
     (case arg of
        NotStr truth \<Rightarrow>
          (case truth of Inl e \<Rightarrow> Inl e | Inr b \<Rightarrow> Inr invalid_input_report)
      | Str code0 \<Rightarrow>
          if code0 = [] then Inr invalid_input_report
          else (let code = strip code0
                in if code = [] then Inr empty_code_report
                   else (case p23_detect B code of
                           Inl e \<Rightarrow> Inl e
                         | Inr python2_patterns \<Rightarrow>
                             if python2_patterns = [] then Inr (p23_compatible_report code)
                             else (case use_lib2to3 B code of
                                     (migrated_code, was_changed, error_msg) \<Rightarrow>
                                       if \<not> was_changed \<or> error_msg \<noteq> [] then
                                         (case p23_pattern_based_migration B code of
                                            Inl e \<Rightarrow> Inl e
                                          | Inr (migrated, changes_made) \<Rightarrow>
                                              if 0 < length changes_made
                                              then Inr (p23_pattern_report python2_patterns
                                                          migrated changes_made)
                                              else Inr (p23_no_fix_report python2_patterns code))
                                       else Inr (p23_lib2to3_report python2_patterns
                                                   migrated_code)))))"

definition python2to3_run :: "python2to3_backend \<Rightarrow> py_arg \<Rightarrow> exn + string" where
  "python2to3_run B arg =
     (case python2to3_try B arg of
        Inr report \<Rightarrow> Inr report
      | Inl e \<Rightarrow> Inr (''Error during migration: '' @ exn_str e))"

subsection \<open>\<^verbatim>\<open>ModernizeTool\<close>\<close>

text \<open>
  \<^item> \<open>mz_detect\<close>: \<^verbatim>\<open>_detect_compatibility_issues\<close>, built on \<^verbatim>\<open>re.search\<close>;
  \<^item> \<open>mz_probe_command\<close>, \<open>mz_probe_module\<close>: the return codes of
    \<^verbatim>\<open>python-modernize --help\<close> and \<^verbatim>\<open>python -m libmodernize --help\<close>;
  \<^item> \<open>mz_write_temp\<close>, \<open>mz_read_temp\<close>, \<open>mz_cleanup\<close>: the temporary file;
  \<^item> \<open>mz_subprocess\<close>: the return code, \<^verbatim>\<open>stdout\<close> and \<^verbatim>\<open>stderr\<close> of the command;
  \<^item> \<open>mz_pattern_based_modernization\<close>: \<^verbatim>\<open>_pattern_based_modernization\<close>: the
    modernized code and the list of changes.
\<close>

record modernize_backend =
  mz_detect :: "string \<Rightarrow> exn + string list"
  mz_probe_command :: "exn + int"
  mz_probe_module :: "exn + int"
  mz_write_temp :: "string \<Rightarrow> exn + unit"
  mz_subprocess :: "string \<Rightarrow> exn + int \<times> string \<times> string"
  mz_read_temp :: "string \<Rightarrow> exn + string"
  mz_cleanup :: "exn + unit"
  mz_pattern_based_modernization :: "string \<Rightarrow> exn + string \<times> string list"

text \<open>The second \<^verbatim>\<open>try\<close> of \<^verbatim>\<open>_check_modernize_available\<close>, and the whole.\<close>

definition check_modernize_module :: "modernize_backend \<Rightarrow> exn + bool" where
  "check_modernize_module B =
     (case mz_probe_module B of
        Inr returncode \<Rightarrow> Inr (returncode = 0)
      | Inl (TimeoutExpired m) \<Rightarrow> Inr False
      | Inl (FileNotFoundError m) \<Rightarrow> Inr False
      | Inl e \<Rightarrow> Inl e)"

definition check_modernize_available :: "modernize_backend \<Rightarrow> exn + bool" where
  "check_modernize_available B =
     (case mz_probe_command B of
        Inr returncode \<Rightarrow> if returncode = 0 then Inr True else check_modernize_module B
      | Inl (TimeoutExpired m) \<Rightarrow> check_modernize_module B
      | Inl (FileNotFoundError m) \<Rightarrow> check_modernize_module B
      | Inl e \<Rightarrow> Inl e)"

text \<open>\<^verbatim>\<open>_run_modernize_on_code\<close>: every exception is caught.\<close>

definition run_modernize_on_code :: "modernize_backend \<Rightarrow> string \<Rightarrow> string \<times> bool \<times> string" where
  "run_modernize_on_code B code =
     (case (case mz_write_temp B code of
              Inl e \<Rightarrow> Inl e
            | Inr u \<Rightarrow>
                with_cleanup
                  (case mz_subprocess B code of
                     Inl e \<Rightarrow> Inl e
                   | Inr (returncode, stdout, stderr) \<Rightarrow>
                       if returncode = 0 then
                         (if strip stdout \<noteq> [] then Inr (stdout, stdout \<noteq> code, [])
                          else (case mz_read_temp B code of
                                  Inl e \<Rightarrow> Inl e
                                | Inr updated_code \<Rightarrow>
                                    Inr (updated_code, updated_code \<noteq> code, [])))
                       else Inr (code, False,
                                 ''modernize error: ''
                                 @ (if stderr \<noteq> [] then stderr else ''Unknown modernize error'')))
                  (mz_cleanup B)) of
        Inr r \<Rightarrow> r
      | Inl (TimeoutExpired m) \<Rightarrow> (code, False, ''modernize command timed out'')
      | Inl e \<Rightarrow> (code, False, ''Error running modernize: '' @ exn_str e))"

text \<open>\<^verbatim>\<open>"\n".join(f"- {change}" for change in changes_made)\<close>\<close>

definition bulleted :: "string list \<Rightarrow> string" where
  "bulleted changes_made = join_with ''\<newline>'' (map (\<lambda>change. ''- '' @ change) changes_made)"

definition mz_applied_report ::
  "string \<Rightarrow> string list \<Rightarrow> string \<Rightarrow> string list \<Rightarrow> string \<Rightarrow> string" where
  "mz_applied_report how compatibility_issues updated_code changes_made closing =
     ''Python 2/3 Compatibility Applied ('' @ how @ '')\<newline>\<newline>''
     @ ''Compatibility Issues Detected: '' @ join_with '', '' compatibility_issues
     @ ''\<newline>\<newline>Modernized Code:\<newline>'' @ fence updated_code
     @ ''\<newline>\<newline>Changes Applied:\<newline>'' @ bulleted changes_made
     @ ''\<newline>\<newline>'' @ closing"

definition mz_modernize_report :: "string list \<Rightarrow> string \<Rightarrow> string" where
  "mz_modernize_report compatibility_issues updated_code =
     ''Python 2/3 Compatibility Applied (using python-modernize)\<newline>\<newline>''
     @ ''Compatibility Issues Detected: '' @ join_with '', '' compatibility_issues
     @ ''\<newline>\<newline>Modernized Code:\<newline>'' @ fence updated_code
     @ ''\<newline>\<newline>Code has been successfully modernized using the python-modernize tool.''
     @ ''\<newline>Code is now compatible with both Python 2.7+ and Python 3.x''"

definition mz_analysis_report :: "string \<Rightarrow> string \<Rightarrow> string \<Rightarrow> string" where
  "mz_analysis_report lead code closing =
     ''Python 2/3 Compatibility Analysis Complete\<newline>\<newline>'' @ lead
     @ ''Original code:\<newline>'' @ fence code @ ''\<newline>\<newline>'' @ closing"

definition mz_pattern_applied_closing :: string where
  "mz_pattern_applied_closing =
     ''Code is now compatible with both Python 2.7+ and Python 3.x''"

definition mz_no_fix_lead :: string where
  "mz_no_fix_lead = ''No automatic fixes could be applied.\<newline>\<newline>''"

definition mz_no_fix_closing :: string where
  "mz_no_fix_closing = ''Code appears to already be compatible with both Python versions.''"

definition mz_fallback_applied_closing :: string where
  "mz_fallback_applied_closing =
     ''Code should now be more compatible with both Python 2.7+ and Python 3.x''
     @ ''\<newline>For best results, install python-modernize: pip install modernize''"

definition mz_fallback_analysis_closing :: string where
  "mz_fallback_analysis_closing =
     ''Code appears to already be compatible or no automatic fixes available.''
     @ ''\<newline>For comprehensive modernization, install python-modernize: ''
     @ ''pip install modernize''"

definition modernize_try :: "modernize_backend \<Rightarrow> py_arg \<Rightarrow> exn + string" where
  "modernize_try B arg =
     (case arg of
        NotStr truth \<Rightarrow>
          (case truth of Inl e \<Rightarrow> Inl e | Inr b \<Rightarrow> Inr invalid_input_report)
      | Str code0 \<Rightarrow>
          if code0 = [] then Inr invalid_input_report
          else (let code = strip code0
                in if code = [] then Inr empty_code_report
                   else (case mz_detect B code of
                           Inl e \<Rightarrow> Inl e
                         | Inr compatibility_issues \<Rightarrow>
     (case check_modernize_available B of
        Inl e \<Rightarrow> Inl e
      | Inr True \<Rightarrow>
          (case run_modernize_on_code B code of
             (updated_code, was_changed, error_msg) \<Rightarrow>
               if error_msg \<noteq> [] then
                 (case mz_pattern_based_modernization B code of
                    Inl e \<Rightarrow> Inl e
                  | Inr (updated, changes_made) \<Rightarrow>
                      if 0 < length changes_made
                      then Inr (mz_applied_report ''Pattern-based'' compatibility_issues updated
                                  changes_made mz_pattern_applied_closing)
                      else Inr (mz_analysis_report mz_no_fix_lead code mz_no_fix_closing))
               else if was_changed then Inr (mz_modernize_report compatibility_issues updated_code)
               else Inr (mz_analysis_report
                           ''No changes needed - code is already compatible.\<newline>\<newline>'' code
                           ''Code is already compatible with both Python 2.7+ and Python 3.x''))
      | Inr False \<Rightarrow>
          (case mz_pattern_based_modernization B code of
             Inl e \<Rightarrow> Inl e
           | Inr (updated_code, changes_made) \<Rightarrow>
               if changes_made \<noteq> []
               then Inr (mz_applied_report ''Pattern-based Fallback'' compatibility_issues
                           updated_code changes_made
                           mz_fallback_applied_closing)
               else Inr (mz_analysis_report [] code mz_fallback_analysis_closing))))))"

definition modernize_run :: "modernize_backend \<Rightarrow> py_arg \<Rightarrow> exn + string" where
  "modernize_run B arg =
     (case modernize_try B arg of
        Inr report \<Rightarrow> Inr report
      | Inl e \<Rightarrow> Inr (''Error during modernization: '' @ exn_str e))"

section \<open>Notions used to state the properties\<close>

text \<open>
  A file passes the oracle when it can be read and \<^verbatim>\<open>compile\<close> returns for its text:
  the case in which \<^verbatim>\<open>_attempt_compilation\<close> records no error for it.
\<close>

definition passes_oracle :: "env \<Rightarrow> string \<times> file_content \<Rightarrow> bool" where
  "passes_oracle E pc =
     (case pc of
        (p, Text code) \<Rightarrow> py_compile E p code = Compiled
      | (p, Unreadable m) \<Rightarrow> False)"

text \<open>The effect of one logged write on a tree, and of a list of them in order.\<close>

definition apply_write ::
  "(string \<times> file_content) list \<Rightarrow> string \<times> string \<Rightarrow> (string \<times> file_content) list" where
  "apply_write fs wr =
     (case wr of (p, txt) \<Rightarrow> map (\<lambda>(q, c). if q = p then (q, Text txt) else (q, c)) fs)"

definition replay ::
  "(string \<times> file_content) list \<Rightarrow> (string \<times> string) list \<Rightarrow> (string \<times> file_content) list" where
  "replay fs ws = foldl apply_write fs ws"

text \<open>
  The text \<^verbatim>\<open>current_code\<close> holds after one block of \<^verbatim>\<open>_apply_fallback_tools\<close>
  ran the tool on it.
\<close>

definition accepted_text :: "env \<Rightarrow> tool \<Rightarrow> string \<Rightarrow> string" where
  "accepted_text E t current_code =
     (case extract_code_from_result (tool_run E t current_code) of
        None \<Rightarrow> current_code
      | Some m \<Rightarrow>
          if m \<noteq> [] \<and> m \<noteq> current_code \<and> validate_python_code E m then m
          else current_code)"

text \<open>
  An engine is absent when its probes fail: the command is not found and the module
  probe returns a non-zero code, times out or finds no interpreter; for lib2to3, when its
  import fails.
\<close>

definition probe_fails :: "exn + int \<Rightarrow> bool" where
  "probe_fails p =
     (case p of
        Inr returncode \<Rightarrow> returncode \<noteq> 0
      | Inl (TimeoutExpired m) \<Rightarrow> True
      | Inl (FileNotFoundError m) \<Rightarrow> True
      | Inl e \<Rightarrow> False)"

definition pyupgrade_absent :: "pyupgrade_backend \<Rightarrow> bool" where
  "pyupgrade_absent B = (\<not> pu_which B \<and> probe_fails (pu_probe B))"

definition modernize_absent :: "modernize_backend \<Rightarrow> bool" where
  "modernize_absent B = (probe_fails (mz_probe_command B) \<and> probe_fails (mz_probe_module B))"

definition lib2to3_absent :: "python2to3_backend \<Rightarrow> bool" where
  "lib2to3_absent B = (case p23_setup B of Inl (ImportError m) \<Rightarrow> True | Inl e \<Rightarrow> False | Inr u \<Rightarrow> False)"

text \<open>A round that did not end in success and applied at least one fix.\<close>

definition made_progress :: "iteration_result \<Rightarrow> bool" where
  "made_progress ir = (compilation_status ir \<noteq> ''success'' \<and> 0 < fixes_applied ir)"

text \<open>
  A tool proposes no change to a text when the extractor finds nothing in its report,
  or finds the empty text, or finds the text itself.
\<close>

definition proposes_no_change :: "env \<Rightarrow> tool \<Rightarrow> string \<Rightarrow> bool" where
  "proposes_no_change E t code =
     (case extract_code_from_result (tool_run E t code) of
        None \<Rightarrow> True
      | Some m \<Rightarrow> m = [] \<or> m = code)"

text \<open>
  A file is quiet in a world when it cannot be read or no tool proposes a change to its
  text. The agent is quiet on it when it fails (raises, has no output, or has an output
  with no usable code) or answers with the text the file already has.
\<close>

definition quiet :: "env \<Rightarrow> world \<Rightarrow> string \<Rightarrow> bool" where
  "quiet E w f =
     (case read_file w f of
        Unreadable m \<Rightarrow> True
      | Text code \<Rightarrow> list_all (\<lambda>t. proposes_no_change E t code) tools)"

definition agent_quiet ::
  "env \<Rightarrow> (agent_request \<Rightarrow> agent_response) \<Rightarrow> error_info list \<Rightarrow> nat \<Rightarrow> world \<Rightarrow> string
     \<Rightarrow> bool" where
  "agent_quiet E agent errors iter w f =
     (case read_file w f of
        Unreadable m \<Rightarrow> True
      | Text code \<Rightarrow>
          (case agent \<lparr>req_file = f, req_code = code, req_errors = errors,
                       req_iteration = iter\<rparr> of
             AgentRaises \<Rightarrow> True
           | AgentReturns None steps \<Rightarrow> True
           | AgentReturns (Some agent_output) steps \<Rightarrow>
               (case extract_code_from_agent_output E agent_output of
                  None \<Rightarrow> True
                | Some m \<Rightarrow> m = [] \<or> m = code)))"

text \<open>
  The world \<open>w'\<close> comes from \<open>w\<close> by \<open>k\<close> writes, all to files of the tree outside
  \<open>Q\<close>, each applied to the tree as it was logged.
\<close>

definition frame :: "string set \<Rightarrow> world \<Rightarrow> world \<Rightarrow> nat \<Rightarrow> bool" where
  "frame Q w w' k =
     (\<exists>ws. writes w' = writes w @ ws \<and> files w' = replay (files w) ws \<and> length ws = k
           \<and> fst ` set ws \<subseteq> fst ` set (files w) - Q)"




text \<open>
  Every write of a list, applied in order to a tree, replaces the content its file has
  at that moment by a different text.
\<close>

fun changing :: "(string \<times> file_content) list \<Rightarrow> (string \<times> string) list \<Rightarrow> bool" where
  "changing fs [] = True"
| "changing fs (wr # ws) =
     (map_of fs (fst wr) \<noteq> Some (Text (snd wr)) \<and> changing (apply_write fs wr) ws)"

text \<open>
  The world \<open>w'\<close> comes from \<open>w\<close> by \<open>k\<close> writes, each of which changed the text of
  its file.
\<close>

definition changed_by :: "world \<Rightarrow> world \<Rightarrow> nat \<Rightarrow> bool" where
  "changed_by w w' k =
     (\<exists>ws. writes w' = writes w @ ws \<and> files w' = replay (files w) ws \<and> length ws = k
           \<and> changing (files w) ws)"

text \<open>
  The fallback chain on a text: the text after the guarded block of the dialect
  converter, the text after all blocks, whether a block took a new text, and the calls
  made.
\<close>

definition chain_start :: "env \<Rightarrow> string \<Rightarrow> string" where
  "chain_start E code =
     (if list_ex (\<lambda>p. contains p code) py2_markers then accepted_text E Python2To3Tool code
      else code)"

definition chain_text :: "env \<Rightarrow> string \<Rightarrow> string" where
  "chain_text E code =
     accepted_text E ModernizeTool (accepted_text E PyUpgradeTool (chain_start E code))"

definition chain_modified :: "env \<Rightarrow> string \<Rightarrow> bool" where
  "chain_modified E code =
     (chain_start E code \<noteq> code
      \<or> accepted_text E PyUpgradeTool (chain_start E code) \<noteq> chain_start E code
      \<or> chain_text E code \<noteq> accepted_text E PyUpgradeTool (chain_start E code))"

definition chain_calls :: "env \<Rightarrow> string \<Rightarrow> call list" where
  "chain_calls E code =
     (if list_ex (\<lambda>p. contains p code) py2_markers then [ToolCall Python2To3Tool code] else [])
     @ [ToolCall PyUpgradeTool (chain_start E code),
        ToolCall ModernizeTool (accepted_text E PyUpgradeTool (chain_start E code))]"

text \<open>
  What a pass over a tree writes and calls when every readable file is handed to the agent
  and then to the fallback chain.
\<close>

fun chain_writes :: "env \<Rightarrow> (string \<times> file_content) list \<Rightarrow> (string \<times> string) list" where
  "chain_writes E [] = []"
| "chain_writes E ((f, Text code) # fs) =
     (if chain_modified E code then [(f, chain_text E code)] else []) @ chain_writes E fs"
| "chain_writes E ((f, Unreadable m) # fs) = chain_writes E fs"

fun chain_call_log :: "env \<Rightarrow> (string \<times> file_content) list \<Rightarrow> call list" where
  "chain_call_log E [] = []"
| "chain_call_log E ((f, Text code) # fs) =
     AgentCall f # chain_calls E code @ chain_call_log E fs"
| "chain_call_log E ((f, Unreadable m) # fs) = chain_call_log E fs"

text \<open>The two shapes of an entry of \<^verbatim>\<open>tools_used\<close>.\<close>

fun is_tool_entry :: "tools_used_entry \<Rightarrow> bool" where
  "is_tool_entry (ToolEntry name files_modified) = True"
| "is_tool_entry (FileEntry label name) = False"

fun is_fallback_entry :: "tools_used_entry \<Rightarrow> bool" where
  "is_fallback_entry (FileEntry label name) = (label = ''fallback_tools'')"
| "is_fallback_entry (ToolEntry name files_modified) = False"

section \<open>A concrete environment\<close>

text \<open>
  The concrete runs below need an oracle, tools and \<^verbatim>\<open>str\<close>. They are tables over
  the few texts these runs meet: what CPython 3 answers for each text, and the fenced
  block of the report each tool returns for it when its external engine is absent (the
  reports are cut down to a headline and the block, which is all the extractor reads).
  Two of the texts are a \<^verbatim>\<open>try\<close> statement with the \<^verbatim>\<open>except\<close> clause of
  Python 2, which CPython 3.10 to 3.13 refuse with the message below, and with the clause
  the dialect converter makes of it.
\<close>

definition except_py2 :: string where
  "except_py2 = ''try:\<newline>    f()\<newline>except ValueError, e:\<newline>    pass''"

definition except_py3 :: string where
  "except_py3 = ''try:\<newline>    f()\<newline>except ValueError as e:\<newline>    pass''"

definition example_compile :: "string \<Rightarrow> string \<Rightarrow> compile_outcome" where
  \<open>example_compile name code =
     (if code = ''print("a")'' \<or> code = ''x = 1'' then Compiled
      else if startswith code ''print "a"''
      then SyntaxError (Some 1)
             (''Missing parentheses in call to '' @ [CHR 0x27] @ ''print'' @ [CHR 0x27]
              @ ''. Did you mean print(...)? ('' @ name @ '', line 1)'')
      else if code = except_py3 then Compiled
      else if code = except_py2
      then SyntaxError (Some 3)
             (''multiple exception types must be parenthesized ('' @ name @ '', line 3)'')
      else SyntaxError (Some 2) (''invalid syntax ('' @ name @ '', line 2)''))\<close>

definition fenced :: "string \<Rightarrow> string \<Rightarrow> string" where
  "fenced headline code =
     headline @ ''\<newline>\<newline>```python\<newline>'' @ code @ ''\<newline>```\<newline>''"

definition example_tool_run :: "tool \<Rightarrow> string \<Rightarrow> string" where
  \<open>example_tool_run t code =
     (case t of
        Python2To3Tool \<Rightarrow>
          (if code = ''print "a"''
           then fenced ''Python 2 to 3 Migration Complete'' ''print("a")''
           else if code = ''print "a"\<newline>def f(:''
           then fenced ''Python 2 to 3 Migration Complete'' ''print("a")\<newline>def f(:''
           else if code = except_py2
           then fenced ''Python 2 to 3 Migration Complete'' except_py3
           else fenced ''Python 2 to 3 Migration Analysis'' code)
      | PyUpgradeTool \<Rightarrow>
          (if example_compile ''<unknown>'' code = Compiled
           then fenced ''Fallback Analysis Complete - No changes needed'' code
           else ''Error: Invalid Python syntax'')
      | ModernizeTool \<Rightarrow>
          (if code = ''print "a"''
           then fenced ''Python 2/3 Compatibility Applied (Pattern-based Fallback)''
                  ''from __future__ import print_function\<newline>\<newline>print("a")''
           else if code = ''print "a"\<newline>def f(:''
           then fenced ''Python 2/3 Compatibility Applied (Pattern-based Fallback)''
                  ''from __future__ import print_function\<newline>\<newline>print("a")\<newline>def f(:''
           else fenced ''Python 2/3 Compatibility Analysis Complete'' code))\<close>

text \<open>
  \<^verbatim>\<open>str\<close> of an error dict without the quoting of \<^verbatim>\<open>repr\<close>: the keys, the file,
  the message and the type.
\<close>

definition example_str_error :: "error_info \<Rightarrow> string" where
  "example_str_error e =
     (case e of
        SyntaxErrorInfo f l m \<Rightarrow> ''file: '' @ f @ '', error: '' @ m @ '', type: syntax_error''
      | CompilationErrorInfo f m \<Rightarrow>
          ''file: '' @ f @ '', error: '' @ m @ '', type: compilation_error'')"

text \<open>
  \<^verbatim>\<open>re.search\<close> on texts that hold at most a lower-case \<^verbatim>\<open>```python\<close> fence and no
  JSON envelope.
\<close>

definition example_env :: "(agent_request \<Rightarrow> agent_response) option \<Rightarrow> env" where
  "example_env agent =
     \<lparr>py_compile = example_compile, tool_run = example_tool_run, agent_executor = agent,
      re_search = (\<lambda>p fl s. if p = PythonFence then search_python_fence s else None),
      json_loads = (\<lambda>s. None), str_error = example_str_error\<rparr>"

text \<open>An agent backend that raises on every call.\<close>

definition failing_agent :: "agent_request \<Rightarrow> agent_response" where
  "failing_agent r = AgentRaises"

text \<open>A working directory as \<^verbatim>\<open>copytree\<close> leaves it.\<close>

definition fresh :: "(string \<times> file_content) list \<Rightarrow> world" where
  "fresh fs = \<lparr>files = fs, calls = [], writes = []\<rparr>"

text \<open>
  Backends of the three tools on a machine without pyupgrade, lib2to3 and
  python-modernize, with the pattern-based results for the texts of the runs.
\<close>

definition example_pyupgrade :: pyupgrade_backend where
  "example_pyupgrade =
     \<lparr>pu_target_version = ''3.11'',
      pu_ast_parse = (\<lambda>code. case example_compile ''<unknown>'' code of
                                Compiled \<Rightarrow> Inr ()
                              | SyntaxError l m \<Rightarrow> Inl (PySyntaxError m)
                              | OtherError m \<Rightarrow> Inl (OtherException m)),
      pu_which = False,
      pu_probe = Inr 1,
      pu_write_temp = (\<lambda>code. Inr ()),
      pu_subprocess = (\<lambda>code. Inl (FileNotFoundError ''pyupgrade'')),
      pu_read_temp = (\<lambda>code. Inr code),
      pu_cleanup = Inr (),
      pu_pattern_based_fallback =
        (\<lambda>code. Inr (''Fallback Analysis Complete - No changes needed\<newline>\<newline>''
                     @ ''The code appears to be using modern Python patterns.\<newline>\<newline>''
                     @ ''Original code:\<newline>'' @ fence code))\<rparr>"

definition example_python2to3 :: python2to3_backend where
  \<open>example_python2to3 =
     \<lparr>p23_detect = (\<lambda>code. Inr (if contains ''print "'' code then [''print_statement''] else [])),
      p23_setup = Inl (ImportError ''No module named lib2to3''),
      p23_refactor_string = (\<lambda>code. Inr None),
      p23_pattern_based_migration =
        (\<lambda>code. if code = ''print "a"''
                then Inr (''print("a")'', [''Converted print statement to print() function''])
                else Inr (code, []))\<rparr>\<close>

definition example_modernize :: modernize_backend where
  "example_modernize =
     \<lparr>mz_detect = (\<lambda>code. Inr []),
      mz_probe_command = Inl (FileNotFoundError ''python-modernize''),
      mz_probe_module = Inr 1,
      mz_write_temp = (\<lambda>code. Inr ()),
      mz_subprocess = (\<lambda>code. Inl (FileNotFoundError ''python-modernize'')),
      mz_read_temp = (\<lambda>code. Inr code),
      mz_cleanup = Inr (),
      mz_pattern_based_modernization = (\<lambda>code. Inr (code, []))\<rparr>"

text \<open>The backends with the engine installed and timing out.\<close>

definition example_modernize_timeout :: modernize_backend where
  "example_modernize_timeout =
     example_modernize\<lparr>mz_probe_command := Inr 0,
                        mz_subprocess := (\<lambda>code. Inl (TimeoutExpired ''timed out after 30 seconds''))\<rparr>"


definition example_pyupgrade_timeout :: pyupgrade_backend where
  "example_pyupgrade_timeout =
     example_pyupgrade\<lparr>pu_which := True,
                        pu_subprocess := (\<lambda>code. Inl (TimeoutExpired ''timed out after 30 seconds''))\<rparr>"

text \<open>Trees and an iteration result for the concrete runs.\<close>

definition two_files :: "(string \<times> file_content) list" where
  \<open>two_files = [(''a.py'', Text ''x = 1''), (''main.py'', Text ''print "a"'')]\<close>

definition half_fixable :: "(string \<times> file_content) list" where
  \<open>half_fixable = [(''main.py'', Text ''print "a"\<newline>def f(:'')]\<close>

definition unfixable :: "(string \<times> file_content) list" where
  \<open>unfixable = [(''main.py'', Text ''x = 1\<newline>def f(:'')]\<close>

definition fixable :: "(string \<times> file_content) list" where
  \<open>fixable = [(''main.py'', Text ''print "a"'')]\<close>

definition except_tree :: "(string \<times> file_content) list" where
  "except_tree = [(''main.py'', Text except_py2)]"

text \<open>An agent that answers with the text it was given, in a fence.\<close>

definition echo_agent :: "agent_request \<Rightarrow> agent_response" where
  "echo_agent r = AgentReturns (Some (''Here is the code:\<newline>'' @ fence (req_code r))) None"

definition ir0 :: iteration_result where
  "ir0 = \<lparr>iteration = 1, compilation_status = ''failed'', compilation_attempts = 1,
          errors_found = [], fixes_applied = 0, agent_steps = [], tools_used = []\<rparr>"

text \<open>
  The world after the manual fallback ran the dialect converter over \<open>two_files\<close>.
\<close>

definition after_dialect_converter :: world where
  \<open>after_dialect_converter =
     \<lparr>files = [(''a.py'', Text ''x = 1''), (''main.py'', Text ''print("a")'')],
      calls = [ToolCall Python2To3Tool ''x = 1'', ToolCall Python2To3Tool ''print "a"''],
      writes = [(''main.py'', ''print("a")'')]\<rparr>\<close>

section \<open>The empty tree\<close>

lemma attempt_compilation_empty:
  "files w = [] \<Longrightarrow> attempt_compilation E w = (''no_python_files'', [])"
  by (simp add: attempt_compilation_def python_files_def)

lemma iteration_empty:
  "files w = [] \<Longrightarrow>
   execute_iteration_with_agent E iter fl w =
     (\<lparr>iteration = iter, compilation_status = ''no_python_files'', compilation_attempts = 1,
       errors_found = [], fixes_applied = 0, agent_steps = [], tools_used = []\<rparr>, fl, w)"
  by (simp add: execute_iteration_with_agent_def attempt_compilation_empty)

text \<open>
  Claim C10. For a working tree with no source file the syntax check of a round returns
  the status \<^verbatim>\<open>no_python_files\<close>, and a run over the empty tree never ends with the
  final status \<^verbatim>\<open>success\<close>, whatever the environment and the round budget.
\<close>

theorem empty_tree_never_success:
  "fst (attempt_compilation E (fresh [])) = ''no_python_files''
   \<and> final_status (results (execute_migration E m [])) \<noteq> ''success''"
proof
  show "fst (attempt_compilation E (fresh [])) = ''no_python_files''"
    by (simp add: attempt_compilation_empty fresh_def)
next
  show "final_status (results (execute_migration E m [])) \<noteq> ''success''"
  proof (cases "nat m")
    case 0
    then show ?thesis by (simp add: execute_migration_def)
  next
    case (Suc n)
    then show ?thesis by (simp add: execute_migration_def iteration_empty)
  qed
qed

theorem empty_tree_never_success_witness:
  "fst (attempt_compilation (example_env None) (fresh [])) = ''no_python_files''
   \<and> final_status (results (execute_migration (example_env None) 5 [])) \<noteq> ''success''"
  by (rule empty_tree_never_success)

section \<open>Trees that are valid at the start\<close>

lemma check_file_passes: "passes_oracle E pc \<Longrightarrow> check_file E pc = []"
  by (auto simp: passes_oracle_def check_file_def split: prod.splits file_content.splits)

lemma attempt_compilation_all_ok:
  "files w \<noteq> [] \<Longrightarrow> list_all (passes_oracle E) (files w) \<Longrightarrow>
   attempt_compilation E w = (''success'', [])"
  by (simp add: attempt_compilation_def python_files_def list_all_iff check_file_passes)

lemma iteration_all_ok:
  "files w \<noteq> [] \<Longrightarrow> list_all (passes_oracle E) (files w) \<Longrightarrow>
   execute_iteration_with_agent E iter fl w =
     (\<lparr>iteration = iter, compilation_status = ''success'', compilation_attempts = 1,
       errors_found = [], fixes_applied = 0, agent_steps = [], tools_used = []\<rparr>, fl, w)"
  by (simp add: execute_iteration_with_agent_def attempt_compilation_all_ok)

text \<open>
  Claim C6, amended. For every non-empty source tree whose files all pass the oracle, and
  a round budget of at least one, the run ends in its first round with the final status
  \<^verbatim>\<open>success\<close>, without invoking any tool or the agent and without writing any file.
\<close>

theorem valid_tree_success_without_tools:
  assumes "src \<noteq> []" and "list_all (passes_oracle E) src" and "1 \<le> m"
  shows "final_status (results (execute_migration E m src)) = ''success''
         \<and> length (iterations (results (execute_migration E m src))) = 1
         \<and> calls (final_world (execute_migration E m src)) = []
         \<and> writes (final_world (execute_migration E m src)) = []
         \<and> final_migrated_code (execute_migration E m src) = src"
proof -
  from assms(3) obtain n where n: "nat m = Suc n"
    by (cases "nat m") auto
  show ?thesis
    using assms(1,2) by (simp add: execute_migration_def n iteration_all_ok)
qed

theorem valid_tree_success_without_tools_witness:
  "final_status (results (execute_migration (example_env None) 5 [(''main.py'', Text ''x = 1'')])) = ''success''
   \<and> length (iterations (results (execute_migration (example_env None) 5 [(''main.py'', Text ''x = 1'')]))) = 1
   \<and> calls (final_world (execute_migration (example_env None) 5 [(''main.py'', Text ''x = 1'')])) = []
   \<and> writes (final_world (execute_migration (example_env None) 5 [(''main.py'', Text ''x = 1'')])) = []
   \<and> final_migrated_code (execute_migration (example_env None) 5 [(''main.py'', Text ''x = 1'')])
       = [(''main.py'', Text ''x = 1'')]"
  by (rule valid_tree_success_without_tools)
     (simp_all add: passes_oracle_def example_env_def example_compile_def)

text \<open>
  Claim C6 as stated fails on the empty tree: all of its files pass the oracle, and the
  run ends with the final status \<^verbatim>\<open>unknown\<close>.
\<close>

theorem empty_valid_tree_counterexample:
  "list_all (passes_oracle (example_env None)) []
   \<and> final_status (results (execute_migration (example_env None) 5 [])) = ''unknown''"
  by (simp add: execute_migration_def iteration_empty eval_nat_numeral)

section \<open>The rounds of a run\<close>

lemma loop_extends:
  "\<exists>rest. iterations (fst (migration_loop E n iter (res, fl, w))) = iterations res @ rest
          \<and> length rest \<le> n"
proof (induction n arbitrary: iter res fl w)
  case 0
  then show ?case by simp
next
  case (Suc n)
  obtain ir fl' w' where it: "execute_iteration_with_agent E iter fl w = (ir, fl', w')"
    by (cases "execute_iteration_with_agent E iter fl w") auto
  let ?res1 = "res\<lparr>iterations := iterations res @ [ir],
                     total_compilation_attempts :=
                       total_compilation_attempts res + compilation_attempts ir\<rparr>"
  from Suc.IH[of "Suc iter" ?res1 fl' w'] obtain rest where
    r: "iterations (fst (migration_loop E n (Suc iter) (?res1, fl', w'))) = (iterations res @ [ir]) @ rest"
       "length rest \<le> n" by auto
  show ?case
  proof (cases "compilation_status ir = ''success'' \<or> fixes_applied ir = 0")
    case True
    then show ?thesis using it by (auto simp: Let_def)
  next
    case False
    then show ?thesis using it r by (auto simp: Let_def)
  qed
qed

lemma loop_butlast_progress:
  "list_all made_progress (iterations res) \<Longrightarrow>
   list_all made_progress (butlast (iterations (fst (migration_loop E n iter (res, fl, w)))))"
proof (induction n arbitrary: iter res fl w)
  case 0
  then show ?case by (auto simp: list_all_iff dest: in_set_butlastD)
next
  case (Suc n)
  obtain ir fl' w' where it: "execute_iteration_with_agent E iter fl w = (ir, fl', w')"
    by (cases "execute_iteration_with_agent E iter fl w") auto
  let ?res1 = "res\<lparr>iterations := iterations res @ [ir],
                     total_compilation_attempts :=
                       total_compilation_attempts res + compilation_attempts ir\<rparr>"
  show ?case
  proof (cases "compilation_status ir = ''success'' \<or> fixes_applied ir = 0")
    case True
    then show ?thesis using it Suc.prems by (auto simp: Let_def)
  next
    case False
    then have "list_all made_progress (iterations ?res1)"
      using Suc.prems by (simp add: list_all_iff made_progress_def)
    from Suc.IH[OF this, of "Suc iter" fl' w'] show ?thesis
      using it False by (simp add: Let_def)
  qed
qed

text \<open>
  A round that applies zero fixes is the last round of the run: every round that is
  followed by another one did not end in success and applied at least one fix.
\<close>

lemma zero_fix_round_is_last:
  "list_all (\<lambda>ir. compilation_status ir \<noteq> ''success'' \<and> 0 < fixes_applied ir)
     (butlast (iterations (results (execute_migration E m src))))"
proof -
  have "list_all made_progress (butlast (iterations (fst (migration_loop E (nat m) 1
      (\<lparr>iterations = [], final_status = ''unknown'', successful_fixes = [],
                      total_compilation_attempts = 0,
                      agent_available = (agent_executor E \<noteq> None)\<rparr>, [], \<lparr>files = src, calls = [], writes = []\<rparr>)))))"
    by (rule loop_butlast_progress) simp
  then show ?thesis
    by (cases "migration_loop E (nat m) 1
      (\<lparr>iterations = [], final_status = ''unknown'', successful_fixes = [],
                      total_compilation_attempts = 0,
                      agent_available = (agent_executor E \<noteq> None)\<rparr>, [], \<lparr>files = src, calls = [], writes = []\<rparr>)")
       (simp add: execute_migration_def list_all_iff made_progress_def)
qed

lemma loop_status:
  "final_status res = ''unknown'' \<Longrightarrow>
   final_status (fst (migration_loop E n iter (res, fl, w))) \<in> {''unknown'', ''success'', ''max_iterations_reached''}"
proof (induction n arbitrary: iter res fl w)
  case 0
  then show ?case by simp
next
  case (Suc n)
  obtain ir fl' w' where it: "execute_iteration_with_agent E iter fl w = (ir, fl', w')"
    by (cases "execute_iteration_with_agent E iter fl w") auto
  let ?res1 = "res\<lparr>iterations := iterations res @ [ir],
                     total_compilation_attempts :=
                       total_compilation_attempts res + compilation_attempts ir\<rparr>"
  have "final_status ?res1 = ''unknown''" using Suc.prems by simp
  from Suc.IH[OF this, of "Suc iter" fl' w'] show ?case
    using it Suc.prems
    by (cases "compilation_status ir = ''success''"; cases "fixes_applied ir = 0")
       (simp_all add: Let_def)
qed

lemma loop_exhausted_iff:
  "final_status res = ''unknown'' \<Longrightarrow>
   (final_status (fst (migration_loop E n iter (res, fl, w))) = ''max_iterations_reached'')
   = (length (iterations (fst (migration_loop E n iter (res, fl, w)))) = length (iterations res) + n
      \<and> list_all made_progress (drop (length (iterations res)) (iterations (fst (migration_loop E n iter (res, fl, w))))))"
proof (induction n arbitrary: iter res fl w)
  case 0
  then show ?case by simp
next
  case (Suc n)
  obtain ir fl' w' where it: "execute_iteration_with_agent E iter fl w = (ir, fl', w')"
    by (cases "execute_iteration_with_agent E iter fl w") auto
  let ?res1 = "res\<lparr>iterations := iterations res @ [ir],
                     total_compilation_attempts :=
                       total_compilation_attempts res + compilation_attempts ir\<rparr>"
  have u: "final_status ?res1 = ''unknown''" using Suc.prems by simp
  show ?case
  proof (cases "compilation_status ir = ''success'' \<or> fixes_applied ir = 0")
    case True
    then show ?thesis using it Suc.prems by (auto simp: Let_def made_progress_def)
  next
    case False
    obtain rest where r: "iterations (fst (migration_loop E n (Suc iter) (?res1, fl', w'))) = iterations res @ ir # rest"
      using loop_extends[of E n "Suc iter" ?res1 fl' w'] by auto
    have step: "migration_loop E (Suc n) iter (res, fl, w) = migration_loop E n (Suc iter) (?res1, fl', w')"
      using it False by (simp add: Let_def)
    show ?thesis
      unfolding step using Suc.IH[OF u, of "Suc iter" fl' w'] r False
      by (simp add: made_progress_def)
  qed
qed

text \<open>
  Claim C4 at a failing input. With no agent, one file that no tool can fix and a budget
  of five rounds, the only round applies zero fixes and the run stops after it, as the
  claim says; but the final status is the initial \<^verbatim>\<open>unknown\<close>, not
  \<^verbatim>\<open>no_progress\<close>: this exit assigns no status.
\<close>

theorem zero_fix_stop_leaves_status_unknown:
  "map fixes_applied (iterations (results (execute_migration (example_env None) 5 unfixable))) = [0]
   \<and> final_status (results (execute_migration (example_env None) 5 unfixable)) = ''unknown''
   \<and> final_status (results (execute_migration (example_env None) 5 unfixable)) \<noteq> ''no_progress''"
  by code_simp

section \<open>What a fixing pass writes\<close>

lemma tool_in_tools: "t \<in> set tools"
  by (cases t) (simp_all add: tools_def)

lemma fst_apply_write: "map fst (apply_write fs wr) = map fst fs"
  by (cases wr) (auto simp: apply_write_def split: prod.splits)

lemma fst_replay: "map fst (replay fs ws) = map fst fs"
  unfolding replay_def by (induction ws arbitrary: fs) (simp_all add: fst_apply_write)

lemma map_of_apply_write:
  "fst wr \<noteq> f \<Longrightarrow> map_of (apply_write fs wr) f = map_of fs f"
  by (cases wr, induction fs) (auto simp: apply_write_def)

lemma map_of_replay:
  "f \<notin> fst ` set ws \<Longrightarrow> map_of (replay fs ws) f = map_of fs f"
  unfolding replay_def
  by (induction ws arbitrary: fs) (auto simp: map_of_apply_write)

lemma replay_append: "replay fs (a @ b) = replay (replay fs a) b"
  by (simp add: replay_def)

lemma frame_refl: "frame Q w w 0"
  by (simp add: frame_def replay_def)

lemma frame_log: "frame Q w (log_call w c) 0"
  by (simp add: frame_def replay_def log_call_def)

lemma frame_write:
  "p \<in> fst ` set (files w) \<Longrightarrow> p \<notin> Q \<Longrightarrow> frame Q w (write_file w p t) 1"
  by (simp add: frame_def replay_def write_file_def apply_write_def)

lemma frame_trans:
  assumes "frame Q w w1 a" and "frame Q w1 w2 b"
  shows "frame Q w w2 (a + b)"
proof -
  from assms(1) obtain ws1 where 1: "writes w1 = writes w @ ws1" "files w1 = replay (files w) ws1"
    "length ws1 = a" "fst ` set ws1 \<subseteq> fst ` set (files w) - Q"
    by (auto simp: frame_def)
  from assms(2) obtain ws2 where 2: "writes w2 = writes w1 @ ws2" "files w2 = replay (files w1) ws2"
    "length ws2 = b" "fst ` set ws2 \<subseteq> fst ` set (files w1) - Q"
    by (auto simp: frame_def)
  have "fst ` set (files w1) = fst ` set (files w)"
    using fst_replay[of "files w" ws1] 1(2) by (metis set_map)
  with 1 2 show ?thesis
    unfolding frame_def
    by (intro exI[of _ "ws1 @ ws2"]) (auto simp: replay_append)
qed

lemma frame_read:
  assumes "frame Q w w' k" and "f \<in> Q"
  shows "read_file w' f = read_file w f"
proof -
  from assms(1) obtain ws where ws: "files w' = replay (files w) ws"
    "fst ` set ws \<subseteq> fst ` set (files w) - Q"
    by (auto simp: frame_def)
  from ws(2) assms(2) have "f \<notin> fst ` set ws" by auto
  then have "map_of (files w') f = map_of (files w) f"
    unfolding ws(1) by (rule map_of_replay)
  then show ?thesis by (simp add: read_file_def)
qed

lemma frame_files: "frame Q w w' k \<Longrightarrow> python_files w' = python_files w"
  by (auto simp: frame_def python_files_def fst_replay)

lemma frame_zero: "frame Q w w' 0 \<Longrightarrow> files w' = files w \<and> writes w' = writes w"
  by (auto simp: frame_def replay_def)

lemma read_file_in_tree: "read_file w f = Text code \<Longrightarrow> f \<in> fst ` set (files w)"
  by (auto simp: read_file_def split: option.splits dest: map_of_SomeD intro: rev_image_eqI)

lemma frame_quiet: "frame Q w w' k \<Longrightarrow> f \<in> Q \<Longrightarrow> quiet E w' f = quiet E w f"
  by (simp add: quiet_def frame_read)

lemma frame_agent_quiet:
  "frame Q w w' k \<Longrightarrow> f \<in> Q \<Longrightarrow> agent_quiet E ag es i w' f = agent_quiet E ag es i w f"
  by (simp add: agent_quiet_def frame_read)

lemma try_tool_world:
  "snd (snd (try_tool E t (c, m, w))) = log_call w (ToolCall t c)"
  by (simp add: try_tool_def Let_def split: option.splits)

lemma try_tool_no_change:
  "proposes_no_change E t c \<Longrightarrow> try_tool E t (c, m, w) = (c, m, log_call w (ToolCall t c))"
  by (auto simp: try_tool_def proposes_no_change_def Let_def split: option.splits)

lemma apply_fallback_tools_no_change:
  assumes "list_all (\<lambda>t. proposes_no_change E t c) tools"
  shows "fst (apply_fallback_tools E f c w) = False
         \<and> files (snd (apply_fallback_tools E f c w)) = files w
         \<and> writes (snd (apply_fallback_tools E f c w)) = writes w"
proof -
  have nc: "\<And>t. proposes_no_change E t c"
    using assms tool_in_tools by (auto simp: list_all_iff)
  show ?thesis
    by (simp add: apply_fallback_tools_def Let_def try_tool_no_change nc log_call_def)
qed

lemma apply_fallback_tools_frame:
  assumes "read_file w f = Text c"
    and "f \<in> Q \<Longrightarrow> list_all (\<lambda>t. proposes_no_change E t c) tools"
    and "apply_fallback_tools E f c w = (b, w')"
  shows "frame Q w w' (if b then 1 else 0)"
proof (cases "f \<in> Q")
  case True
  then have nc: "\<And>t. proposes_no_change E t c"
    using assms(2) tool_in_tools by (auto simp: list_all_iff)
  have "apply_fallback_tools E f c w = (False,
          snd (snd (try_tool E (tools ! 2) (try_tool E (tools ! 0)
            (if list_ex (\<lambda>p. contains p c) py2_markers
             then try_tool E (tools ! 1) (c, False, w) else (c, False, w))))))"
    by (simp add: apply_fallback_tools_def Let_def try_tool_no_change nc)
  with assms(3) have b: "b = False" and w': "w' = snd (snd (try_tool E (tools ! 2) (try_tool E (tools ! 0)
            (if list_ex (\<lambda>p. contains p c) py2_markers
             then try_tool E (tools ! 1) (c, False, w) else (c, False, w)))))"
    by simp_all
  have "files w' = files w \<and> writes w' = writes w"
    unfolding w' by (simp add: try_tool_no_change nc log_call_def)
  then show ?thesis using b by (simp add: frame_def replay_def)
next
  case False
  obtain c1 m1 w1 where s1: "(if list_ex (\<lambda>p. contains p c) py2_markers
             then try_tool E (tools ! 1) (c, False, w) else (c, False, w)) = (c1, m1, w1)"
    by (metis prod_cases3)
  obtain c2 m2 w2 where s2: "try_tool E (tools ! 0) (c1, m1, w1) = (c2, m2, w2)"
    by (metis prod_cases3)
  obtain c3 m3 w3 where s3: "try_tool E (tools ! 2) (c2, m2, w2) = (c3, m3, w3)"
    by (metis prod_cases3)
  have f1: "files w1 = files w \<and> writes w1 = writes w"
    using s1 try_tool_world[of E "tools ! 1" c False w]
    by (auto simp: log_call_def split: if_splits)
  have f2: "files w2 = files w1 \<and> writes w2 = writes w1"
    using s2 try_tool_world[of E "tools ! 0" c1 m1 w1] by (auto simp: log_call_def)
  have f3: "files w3 = files w2 \<and> writes w3 = writes w2"
    using s3 try_tool_world[of E "tools ! 2" c2 m2 w2] by (auto simp: log_call_def)
  have res: "(b, w') = (if m3 then (True, write_file w3 f c3) else (False, w3))"
    using assms(3) s1 s2 s3 by (simp add: apply_fallback_tools_def Let_def)
  have fr3: "frame Q w w3 0"
    using f1 f2 f3 by (simp add: frame_def replay_def)
  show ?thesis
  proof (cases m3)
    case True
    have "f \<in> fst ` set (files w3)"
      using read_file_in_tree[OF assms(1)] f1 f2 f3 by simp
    from frame_write[OF this False] have "frame Q w3 (write_file w3 f c3) 1" .
    from frame_trans[OF fr3 this] show ?thesis using res True by simp
  next
    case False
    then show ?thesis using res fr3 by simp
  qed
qed

lemma read_file_log_call: "read_file (log_call w c) f = read_file w f"
  by (simp add: read_file_def log_call_def)

lemma fallback_for_file_frame:
  assumes "read_file w f = Text c"
    and "f \<in> Q \<Longrightarrow> list_all (\<lambda>t. proposes_no_change E t c) tools"
    and "fallback_for_file E label f c (n, ir, w) = (n', ir', w')"
  shows "\<exists>k. n' = n + k \<and> frame Q w w' k \<and> (k = 0 \<longrightarrow> ir' = ir)"
proof -
  obtain b w2 where a: "apply_fallback_tools E f c w = (b, w2)"
    by (cases "apply_fallback_tools E f c w") auto
  from apply_fallback_tools_frame[OF assms(1,2) a]
  have fr: "frame Q w w2 (if b then 1 else 0)" by simp
  show ?thesis
  proof (cases b)
    case True
    with assms(3) a have "n' = n + 1" "w' = w2"
      by (simp_all add: fallback_for_file_def)
    with fr True show ?thesis by auto
  next
    case False
    with assms(3) a have "n' = n + 0" "w' = w2" "ir' = ir"
      by (simp_all add: fallback_for_file_def)
    with fr False show ?thesis by auto
  qed
qed

lemma agent_fix_file_frame:
  assumes q: "\<forall>f\<in>Q. quiet E w f \<and> agent_quiet E agent errors iter w f"
    and r: "agent_fix_file E agent errors iter g (n, ir, w) = (n', ir', w')"
  shows "\<exists>k. n' = n + k \<and> frame Q w w' k \<and> (k = 0 \<longrightarrow> ir' = ir)"
proof (cases "read_file w g")
  case (Unreadable m)
  with r have "n' = n + 0" "w' = w" "ir' = ir"
    by (simp_all add: agent_fix_file_def)
  then show ?thesis using frame_refl by blast
next
  case (Text c)
  let ?w1 = "log_call w (AgentCall g)"
  let ?req = "\<lparr>req_file = g, req_code = c, req_errors = errors, req_iteration = iter\<rparr>"
  have rd1: "read_file ?w1 g = Text c" using Text by (simp add: read_file_log_call)
  have fr1: "frame Q w ?w1 0" by (rule frame_log)
  have tq: "g \<in> Q \<Longrightarrow> list_all (\<lambda>t. proposes_no_change E t c) tools"
    using q Text by (auto simp: quiet_def)
  have fb: "\<exists>k. n' = n + k \<and> frame Q w w' k \<and> (k = 0 \<longrightarrow> ir' = ir)"
    if "fallback_for_file E label g c (n, ir, ?w1) = (n', ir', w')" for label
  proof -
    from fallback_for_file_frame[OF rd1 tq that]
    obtain k where "n' = n + k" "frame Q ?w1 w' k" "k = 0 \<longrightarrow> ir' = ir" by auto
    with frame_trans[OF fr1, of w' k] show ?thesis by auto
  qed
  show ?thesis
  proof (cases "agent ?req")
    case AgentRaises
    with r Text show ?thesis by (intro fb[of "''fallback_tools''"]) (simp add: agent_fix_file_def)
  next
    case (AgentReturns out steps)
    show ?thesis
    proof (cases out)
      case None
      with r Text AgentReturns show ?thesis
        by (intro fb[of "''fallback_no_output''"]) (simp add: agent_fix_file_def)
    next
      case (Some agent_output)
      show ?thesis
      proof (cases "extract_code_from_agent_output E agent_output")
        case None
        with r Text AgentReturns Some show ?thesis
          by (intro fb[of "''fallback_after_agent''"]) (simp add: agent_fix_file_def)
      next
        case (Some m)
        note m = this
        show ?thesis
        proof (cases "m = []")
          case True
          with r Text AgentReturns \<open>out = Some agent_output\<close> m show ?thesis
            by (intro fb[of "''fallback_after_agent''"]) (simp add: agent_fix_file_def)
        next
          case False
          show ?thesis
          proof (cases "m \<noteq> c \<and> validate_python_code E m")
            case True
            have "g \<notin> Q"
            proof
              assume "g \<in> Q"
              with q have "agent_quiet E agent errors iter w g" by blast
              with Text AgentReturns \<open>out = Some agent_output\<close> m False True
              show False by (simp add: agent_quiet_def)
            qed
            from frame_write[OF read_file_in_tree[OF rd1] this]
            have "frame Q ?w1 (write_file ?w1 g m) 1" .
            from frame_trans[OF fr1 this] have "frame Q w (write_file ?w1 g m) 1" by simp
            moreover from r Text AgentReturns \<open>out = Some agent_output\<close> m False True
            have "n' = n + 1" "w' = write_file ?w1 g m"
              by (simp_all add: agent_fix_file_def)
            ultimately show ?thesis by auto
          next
            case nv: False
            with r Text AgentReturns \<open>out = Some agent_output\<close> m False
            have "n' = n + 0" "w' = ?w1" "ir' = ir"
              by (auto simp: agent_fix_file_def Let_def split: if_splits)
            with fr1 show ?thesis by blast
          qed
        qed
      qed
    qed
  qed
qed

lemma agent_fold_frame:
  assumes q: "\<forall>f\<in>Q. quiet E w f \<and> agent_quiet E agent errors iter w f"
    and r: "fold (agent_fix_file E agent errors iter) gs (n, ir, w) = (n', ir', w')"
  shows "\<exists>k. n' = n + k \<and> frame Q w w' k \<and> (k = 0 \<longrightarrow> ir' = ir)"
  using q r
proof (induction gs arbitrary: n ir w)
  case Nil
  then have "n' = n + 0" "w' = w" "ir' = ir" by simp_all
  then show ?case using frame_refl by blast
next
  case (Cons g gs)
  obtain n1 ir1 w1 where s1: "agent_fix_file E agent errors iter g (n, ir, w) = (n1, ir1, w1)"
    by (metis prod_cases3)
  from agent_fix_file_frame[OF Cons.prems(1) s1]
  obtain k1 where k1: "n1 = n + k1" "frame Q w w1 k1" "k1 = 0 \<longrightarrow> ir1 = ir" by auto
  have q1: "\<forall>f\<in>Q. quiet E w1 f \<and> agent_quiet E agent errors iter w1 f"
    using Cons.prems(1) frame_quiet[OF k1(2)] frame_agent_quiet[OF k1(2)] by simp
  from Cons.prems(2) s1
  have "fold (agent_fix_file E agent errors iter) gs (n1, ir1, w1) = (n', ir', w')" by simp
  from Cons.IH[OF q1 this]
  obtain k2 where k2: "n' = n1 + k2" "frame Q w1 w' k2" "k2 = 0 \<longrightarrow> ir' = ir1" by auto
  from frame_trans[OF k1(2) k2(2)] k1 k2 show ?case
    by (intro exI[of _ "k1 + k2"]) auto
qed

lemma manual_fix_file_frame:
  assumes q: "\<forall>f\<in>Q. quiet E w f"
    and r: "manual_fix_file E t g (n, w) = (n', w')"
  shows "\<exists>k. n' = n + k \<and> frame Q w w' k"
proof (cases "read_file w g")
  case (Unreadable m)
  with r have "n' = n + 0" "w' = w" by (simp_all add: manual_fix_file_def)
  then show ?thesis using frame_refl by blast
next
  case (Text c)
  let ?w1 = "log_call w (ToolCall t c)"
  have fr1: "frame Q w ?w1 0" by (rule frame_log)
  have rd1: "read_file ?w1 g = Text c" using Text by (simp add: read_file_log_call)
  show ?thesis
  proof (cases "\<exists>m. extract_code_from_result (tool_run E t c) = Some m \<and> m \<noteq> [] \<and> m \<noteq> c")
    case True
    then obtain m where m: "extract_code_from_result (tool_run E t c) = Some m" "m \<noteq> []" "m \<noteq> c"
      by auto
    have "g \<notin> Q"
    proof
      assume "g \<in> Q"
      with q have "quiet E w g" by blast
      with Text have "proposes_no_change E t c"
        using tool_in_tools by (auto simp: quiet_def list_all_iff)
      with m show False by (simp add: proposes_no_change_def)
    qed
    from frame_write[OF read_file_in_tree[OF rd1] this]
    have "frame Q ?w1 (write_file ?w1 g m) 1" .
    from frame_trans[OF fr1 this] have "frame Q w (write_file ?w1 g m) 1" by simp
    moreover from r Text m have "n' = n + 1" "w' = write_file ?w1 g m"
      by (simp_all add: manual_fix_file_def Let_def)
    ultimately show ?thesis by auto
  next
    case False
    with r Text have "n' = n + 0" "w' = ?w1"
      by (auto simp: manual_fix_file_def Let_def split: option.splits if_splits)
    with fr1 show ?thesis by blast
  qed
qed

lemma manual_fold_frame:
  assumes q: "\<forall>f\<in>Q. quiet E w f"
    and r: "fold (manual_fix_file E t) gs (n, w) = (n', w')"
  shows "\<exists>k. n' = n + k \<and> frame Q w w' k"
  using q r
proof (induction gs arbitrary: n w)
  case Nil
  then have "n' = n + 0" "w' = w" by simp_all
  then show ?case using frame_refl by blast
next
  case (Cons g gs)
  obtain n1 w1 where s1: "manual_fix_file E t g (n, w) = (n1, w1)"
    by (cases "manual_fix_file E t g (n, w)") auto
  from manual_fix_file_frame[OF Cons.prems(1) s1]
  obtain k1 where k1: "n1 = n + k1" "frame Q w w1 k1" by auto
  have q1: "\<forall>f\<in>Q. quiet E w1 f"
    using Cons.prems(1) frame_quiet[OF k1(2)] by simp
  from Cons.prems(2) s1 have "fold (manual_fix_file E t) gs (n1, w1) = (n', w')" by simp
  from Cons.IH[OF q1 this]
  obtain k2 where k2: "n' = n1 + k2" "frame Q w1 w' k2" by auto
  from frame_trans[OF k1(2) k2(2)] k1 k2 show ?case
    by (intro exI[of _ "k1 + k2"]) auto
qed

lemma manual_apply_tool_frame:
  assumes q: "\<forall>f\<in>Q. quiet E w f"
    and r: "manual_apply_tool E t (n, ir, w) = (n', ir', w')"
  shows "\<exists>k. n' = n + k \<and> frame Q w w' k \<and> (k = 0 \<longrightarrow> ir' = ir)"
proof -
  obtain fm w1 where s1: "fold (manual_fix_file E t) (python_files w) (0, w) = (fm, w1)"
    by (cases "fold (manual_fix_file E t) (python_files w) (0, w)") auto
  from manual_fold_frame[OF q s1] have fr: "frame Q w w1 fm" by auto
  from r s1 have "n' = n + fm" "w' = w1" "fm = 0 \<longrightarrow> ir' = ir"
    by (auto simp: manual_apply_tool_def split: if_splits)
  with fr show ?thesis by auto
qed

lemma execute_manual_fallback_steps:
  assumes q: "\<forall>f\<in>Q. quiet E w f"
    and r: "fold (manual_apply_tool E) ts (n, ir, w) = (n', ir', w')"
  shows "\<exists>k. n' = n + k \<and> frame Q w w' k \<and> (k = 0 \<longrightarrow> ir' = ir)"
  using q r
proof (induction ts arbitrary: n ir w)
  case Nil
  then have "n' = n + 0" "w' = w" "ir' = ir" by simp_all
  then show ?case using frame_refl by blast
next
  case (Cons t ts)
  obtain n1 ir1 w1 where s1: "manual_apply_tool E t (n, ir, w) = (n1, ir1, w1)"
    by (metis prod_cases3)
  from manual_apply_tool_frame[OF Cons.prems(1) s1]
  obtain k1 where k1: "n1 = n + k1" "frame Q w w1 k1" "k1 = 0 \<longrightarrow> ir1 = ir" by auto
  have q1: "\<forall>f\<in>Q. quiet E w1 f"
    using Cons.prems(1) frame_quiet[OF k1(2)] by simp
  from Cons.prems(2) s1 have "fold (manual_apply_tool E) ts (n1, ir1, w1) = (n', ir', w')" by simp
  from Cons.IH[OF q1 this]
  obtain k2 where k2: "n' = n1 + k2" "frame Q w1 w' k2" "k2 = 0 \<longrightarrow> ir' = ir1" by auto
  from frame_trans[OF k1(2) k2(2)] k1 k2 show ?case
    by (intro exI[of _ "k1 + k2"]) auto
qed

lemma execute_manual_fallback_frame:
  assumes "\<forall>f\<in>Q. quiet E w f"
    and "execute_manual_fallback E errors ir w = (n', ir', w')"
  shows "frame Q w w' n' \<and> (n' = 0 \<longrightarrow> ir' = ir)"
  using execute_manual_fallback_steps[OF assms(1), of "tool_sequence E errors" 0 ir n' ir' w'] assms(2)
  by (auto simp: execute_manual_fallback_def)

lemma execute_with_langchain_agent_frame:
  assumes "\<forall>f\<in>Q. quiet E w f \<and> agent_quiet E agent errors iter w f"
    and "execute_with_langchain_agent E agent errors iter ir w = (n', ir', w')"
  shows "frame Q w w' n' \<and> (n' = 0 \<longrightarrow> ir' = ir)"
  using agent_fold_frame[OF assms(1), of "python_files w" 0 ir n' ir' w'] assms(2)
  by (auto simp: execute_with_langchain_agent_def)

lemma frame_written:
  assumes "frame Q w w' n" and "f \<in> Q"
  shows "f \<notin> fst ` set (drop (length (writes w)) (writes w'))
         \<and> read_file w' f = read_file w f
         \<and> length (writes w') = length (writes w) + n"
proof -
  from assms(1) obtain ws where ws: "writes w' = writes w @ ws" "length ws = n"
    "fst ` set ws \<subseteq> fst ` set (files w) - Q"
    by (auto simp: frame_def)
  from ws(3) assms(2) have "f \<notin> fst ` set ws" by auto
  with ws frame_read[OF assms] show ?thesis by simp
qed

text \<open>Reading a file after a write, and the listing of the tree.\<close>

lemma map_of_write:
  "map_of (map (\<lambda>(q, c). if q = p then (q, Text t) else (q, c)) fs) h =
     (if h = p then map_option (\<lambda>c. Text t) (map_of fs h) else map_of fs h)"
  by (induction fs) auto


lemma read_file_write_other: "h \<noteq> p \<Longrightarrow> read_file (write_file w p t) h = read_file w h"
  by (simp add: read_file_def write_file_def map_of_write)



text \<open>Writes that change the text of their file.\<close>

lemma changing_append:
  "changing fs (a @ b) = (changing fs a \<and> changing (replay fs a) b)"
  by (induction a arbitrary: fs) (simp_all add: replay_def)

lemma changed_by_refl: "changed_by w w 0"
  by (simp add: changed_by_def replay_def)

lemma changed_by_log: "changed_by w (log_call w c) 0"
  by (simp add: changed_by_def replay_def log_call_def)

lemma changed_by_trans:
  assumes "changed_by w w1 a" and "changed_by w1 w2 b"
  shows "changed_by w w2 (a + b)"
proof -
  from assms(1) obtain ws1 where 1: "writes w1 = writes w @ ws1" "files w1 = replay (files w) ws1"
    "length ws1 = a" "changing (files w) ws1"
    by (auto simp: changed_by_def)
  from assms(2) obtain ws2 where 2: "writes w2 = writes w1 @ ws2" "files w2 = replay (files w1) ws2"
    "length ws2 = b" "changing (files w1) ws2"
    by (auto simp: changed_by_def)
  from 1 2 show ?thesis
    unfolding changed_by_def
    by (intro exI[of _ "ws1 @ ws2"]) (simp add: replay_append changing_append)
qed

lemma changed_by_write:
  assumes "read_file w p = Text c" and "t \<noteq> c"
  shows "changed_by w (write_file w p t) 1"
proof -
  from assms(1) have "map_of (files w) p = Some (Text c)"
    by (simp add: read_file_def split: option.splits)
  with assms(2) show ?thesis
    unfolding changed_by_def
    by (intro exI[of _ "[(p, t)]"]) (simp add: replay_def write_file_def apply_write_def)
qed

text \<open>One block of the fallback chain, and the chain as a whole.\<close>

lemma try_tool_full:
  "try_tool E t (c, m, w) =
     (accepted_text E t c, m \<or> accepted_text E t c \<noteq> c, log_call w (ToolCall t c))"
  by (auto simp: try_tool_def accepted_text_def Let_def split: option.splits)

lemma accepted_text_cases:
  "accepted_text E t c = c \<or> validate_python_code E (accepted_text E t c)"
  by (auto simp: accepted_text_def split: option.splits)

lemma chain_modified_valid:
  assumes "chain_modified E c"
  shows "validate_python_code E (chain_text E c)"
proof -
  have 1: "chain_start E c = c \<or> validate_python_code E (chain_start E c)"
    using accepted_text_cases[of E Python2To3Tool c] by (simp add: chain_start_def)
  have 2: "accepted_text E PyUpgradeTool (chain_start E c) = chain_start E c
      \<or> validate_python_code E (accepted_text E PyUpgradeTool (chain_start E c))"
    by (rule accepted_text_cases)
  have 3: "chain_text E c = accepted_text E PyUpgradeTool (chain_start E c)
      \<or> validate_python_code E (chain_text E c)"
    unfolding chain_text_def by (rule accepted_text_cases)
  from assms 1 2 3 show ?thesis
    unfolding chain_modified_def by metis
qed

lemma apply_fallback_tools_eq:
  "apply_fallback_tools E f c w =
     (chain_modified E c,
      if chain_modified E c
      then write_file (w\<lparr>calls := calls w @ chain_calls E c\<rparr>) f (chain_text E c)
      else w\<lparr>calls := calls w @ chain_calls E c\<rparr>)"
  by (auto simp: apply_fallback_tools_def Let_def tools_def try_tool_full chain_modified_def
      chain_text_def chain_start_def chain_calls_def log_call_def)

text \<open>A no-op outcome at each of the three places that compare and write.\<close>

lemma try_tool_noop:
  "extract_code_from_result (tool_run E t c) = Some c \<Longrightarrow>
   try_tool E t (c, m, w) = (c, m, log_call w (ToolCall t c))"
  by (simp add: try_tool_def Let_def)

lemma manual_fix_file_noop:
  "read_file w f = Text c \<Longrightarrow> extract_code_from_result (tool_run E t c) = Some c \<Longrightarrow>
   manual_fix_file E t f (n, w) = (n, log_call w (ToolCall t c))"
  by (simp add: manual_fix_file_def Let_def)

lemma agent_fix_file_noop:
  "read_file w f = Text c \<Longrightarrow>
   agent \<lparr>req_file = f, req_code = c, req_errors = errors, req_iteration = iter\<rparr>
     = AgentReturns (Some agent_output) steps \<Longrightarrow>
   extract_code_from_agent_output E agent_output = Some c \<Longrightarrow> c \<noteq> [] \<Longrightarrow>
   agent_fix_file E agent errors iter f (n, ir, w) = (n, ir, log_call w (AgentCall f))"
  by (simp add: agent_fix_file_def Let_def)

text \<open>The fixes of a pass are its writes.\<close>

lemma manual_fix_file_changed:
  assumes "manual_fix_file E t g (n, w) = (n', w')"
  shows "\<exists>k. n' = n + k \<and> changed_by w w' k"
proof (cases "read_file w g")
  case (Unreadable m)
  with assms have "n' = n + 0" "w' = w" by (simp_all add: manual_fix_file_def)
  then show ?thesis using changed_by_refl by blast
next
  case (Text c)
  let ?w1 = "log_call w (ToolCall t c)"
  have rd1: "read_file ?w1 g = Text c" using Text by (simp add: read_file_log_call)
  show ?thesis
  proof (cases "\<exists>m. extract_code_from_result (tool_run E t c) = Some m \<and> m \<noteq> [] \<and> m \<noteq> c")
    case True
    then obtain m where m: "extract_code_from_result (tool_run E t c) = Some m" "m \<noteq> []" "m \<noteq> c"
      by auto
    from changed_by_trans[OF changed_by_log changed_by_write[OF rd1 m(3)]]
    have "changed_by w (write_file ?w1 g m) 1" by simp
    moreover from assms Text m have "n' = n + 1" "w' = write_file ?w1 g m"
      by (simp_all add: manual_fix_file_def Let_def)
    ultimately show ?thesis by auto
  next
    case False
    with assms Text have "n' = n + 0" "w' = ?w1"
      by (auto simp: manual_fix_file_def Let_def split: option.splits if_splits)
    with changed_by_log show ?thesis by blast
  qed
qed

lemma manual_fold_changed:
  assumes "fold (manual_fix_file E t) gs (n, w) = (n', w')"
  shows "\<exists>k. n' = n + k \<and> changed_by w w' k"
  using assms
proof (induction gs arbitrary: n w)
  case Nil
  then have "n' = n + 0" "w' = w" by simp_all
  then show ?case using changed_by_refl by blast
next
  case (Cons g gs)
  obtain n1 w1 where s1: "manual_fix_file E t g (n, w) = (n1, w1)"
    by (cases "manual_fix_file E t g (n, w)") auto
  from manual_fix_file_changed[OF s1]
  obtain k1 where k1: "n1 = n + k1" "changed_by w w1 k1" by auto
  from Cons.prems s1 have "fold (manual_fix_file E t) gs (n1, w1) = (n', w')" by simp
  from Cons.IH[OF this]
  obtain k2 where k2: "n' = n1 + k2" "changed_by w1 w' k2" by auto
  from changed_by_trans[OF k1(2) k2(2)] k1 k2 show ?case
    by (intro exI[of _ "k1 + k2"]) auto
qed

lemma manual_apply_tool_changed:
  assumes "manual_apply_tool E t (n, ir, w) = (n', ir', w')"
  shows "\<exists>k. n' = n + k \<and> changed_by w w' k"
proof -
  obtain fm w1 where s1: "fold (manual_fix_file E t) (python_files w) (0, w) = (fm, w1)"
    by (cases "fold (manual_fix_file E t) (python_files w) (0, w)") auto
  from manual_fold_changed[OF s1] have fr: "changed_by w w1 fm" by auto
  from assms s1 have "n' = n + fm" "w' = w1"
    by (auto simp: manual_apply_tool_def split: if_splits)
  with fr show ?thesis by auto
qed

lemma manual_tools_fold_changed:
  assumes "fold (manual_apply_tool E) ts (n, ir, w) = (n', ir', w')"
  shows "\<exists>k. n' = n + k \<and> changed_by w w' k"
  using assms
proof (induction ts arbitrary: n ir w)
  case Nil
  then have "n' = n + 0" "w' = w" by simp_all
  then show ?case using changed_by_refl by blast
next
  case (Cons t ts)
  obtain n1 ir1 w1 where s1: "manual_apply_tool E t (n, ir, w) = (n1, ir1, w1)"
    by (metis prod_cases3)
  from manual_apply_tool_changed[OF s1]
  obtain k1 where k1: "n1 = n + k1" "changed_by w w1 k1" by auto
  from Cons.prems s1 have "fold (manual_apply_tool E) ts (n1, ir1, w1) = (n', ir', w')" by simp
  from Cons.IH[OF this]
  obtain k2 where k2: "n' = n1 + k2" "changed_by w1 w' k2" by auto
  from changed_by_trans[OF k1(2) k2(2)] k1 k2 show ?case
    by (intro exI[of _ "k1 + k2"]) auto
qed

lemma execute_manual_fallback_changed:
  assumes "execute_manual_fallback E errors ir w = (n, ir', w')"
  shows "length (writes w') = length (writes w) + n
         \<and> changing (files w) (drop (length (writes w)) (writes w'))"
  using manual_tools_fold_changed[of E "tool_sequence E errors" 0 ir w n ir' w'] assms
  by (auto simp: execute_manual_fallback_def changed_by_def)

lemma execute_with_langchain_agent_count:
  assumes "execute_with_langchain_agent E agent errors iter ir w = (n, ir', w')"
  shows "length (writes w') = length (writes w) + n"
proof -
  have "\<forall>f\<in>{}. quiet E w f \<and> agent_quiet E agent errors iter w f" by simp
  from execute_with_langchain_agent_frame[OF this assms] show ?thesis
    by (auto simp: frame_def)
qed

text \<open>A file on which every outcome is a no-op is not among the files a pass writes.\<close>

lemma quiet_file_not_written:
  assumes "quiet E w f"
  shows "(case execute_manual_fallback E errors ir w of (n, ir', w') \<Rightarrow>
            f \<notin> fst ` set (drop (length (writes w)) (writes w'))
            \<and> read_file w' f = read_file w f)
       \<and> (agent_quiet E agent errors iter w f \<longrightarrow>
          (case execute_with_langchain_agent E agent errors iter ir w of (n, ir', w') \<Rightarrow>
            f \<notin> fst ` set (drop (length (writes w)) (writes w'))
            \<and> read_file w' f = read_file w f))"
proof (intro conjI impI)
  obtain n ir' w' where r: "execute_manual_fallback E errors ir w = (n, ir', w')"
    by (metis prod_cases3)
  have "\<forall>g\<in>{f}. quiet E w g" using assms by simp
  from execute_manual_fallback_frame[OF this r] have fr: "frame {f} w w' n" by simp
  from frame_written[OF fr] r
  show "case execute_manual_fallback E errors ir w of (n, ir', w') \<Rightarrow>
            f \<notin> fst ` set (drop (length (writes w)) (writes w'))
            \<and> read_file w' f = read_file w f"
    by simp
next
  assume a: "agent_quiet E agent errors iter w f"
  obtain n ir' w' where r: "execute_with_langchain_agent E agent errors iter ir w = (n, ir', w')"
    by (metis prod_cases3)
  have "\<forall>g\<in>{f}. quiet E w g \<and> agent_quiet E agent errors iter w g" using assms a by simp
  from execute_with_langchain_agent_frame[OF this r] have fr: "frame {f} w w' n" by simp
  from frame_written[OF fr] r
  show "case execute_with_langchain_agent E agent errors iter ir w of (n, ir', w') \<Rightarrow>
            f \<notin> fst ` set (drop (length (writes w)) (writes w'))
            \<and> read_file w' f = read_file w f"
    by simp
qed

lemma quiet_a: "quiet (example_env ag) (fresh two_files) ''a.py''"
  by (simp add: quiet_def read_file_def fresh_def two_files_def tools_def proposes_no_change_def
      example_env_def example_tool_run_def example_compile_def except_py2_def except_py3_def
      fenced_def extract_code_from_result_def search_python_fence_def)

lemma dialect_converter_pass:
  "manual_apply_tool (example_env None) Python2To3Tool (0, ir0, fresh two_files)
     = (1, ir0\<lparr>tools_used := [ToolEntry ''python2to3'' 1]\<rparr>, after_dialect_converter)"
  by code_simp

text \<open>
  Claim C8. A tool outcome whose text equals the text the tool was given causes no write
  and no count, on every fixing path. A block of the fallback chain leaves
  \<^verbatim>\<open>current_code\<close> and \<^verbatim>\<open>code_modified\<close> as they were, and the chain writes (once,
  at its end) exactly when some block took a new text. The inner step of the manual
  fallback leaves the file and \<^verbatim>\<open>files_modified\<close> as they were. The agent path leaves
  the file and \<^verbatim>\<open>fixes_applied\<close> as they were when the agent's answer holds the text
  of the file. Over a whole pass the number of fixes is the number of writes, and every
  write of the manual fallback replaces the text its file holds at that moment by a
  different one. A file on which every tool outcome (and, in the agent path, the agent's
  answer) is a no-op is not among the files the pass writes, and keeps its content.
\<close>

theorem noop_outcome_no_write:
  "(extract_code_from_result (tool_run E t current_code) = Some current_code \<longrightarrow>
      try_tool E t (current_code, code_modified, w)
        = (current_code, code_modified, log_call w (ToolCall t current_code)))
   \<and> fst (apply_fallback_tools E f code w) = chain_modified E code
   \<and> writes (snd (apply_fallback_tools E f code w))
       = writes w @ (if chain_modified E code then [(f, chain_text E code)] else [])
   \<and> (read_file w f = Text code \<and> extract_code_from_result (tool_run E t code) = Some code \<longrightarrow>
      manual_fix_file E t f (n, w) = (n, log_call w (ToolCall t code)))
   \<and> (read_file w f = Text code
       \<and> agent \<lparr>req_file = f, req_code = code, req_errors = errors, req_iteration = iter\<rparr>
           = AgentReturns (Some agent_output) steps
       \<and> extract_code_from_agent_output E agent_output = Some code \<and> code \<noteq> [] \<longrightarrow>
      agent_fix_file E agent errors iter f (n, ir, w) = (n, ir, log_call w (AgentCall f)))
   \<and> (case execute_manual_fallback E errors ir w of (k, ir', w') \<Rightarrow>
         length (writes w') = length (writes w) + k
         \<and> changing (files w) (drop (length (writes w)) (writes w')))
   \<and> (case execute_with_langchain_agent E agent errors iter ir w of (k, ir', w') \<Rightarrow>
         length (writes w') = length (writes w) + k)
   \<and> (quiet E w f \<longrightarrow>
        (case execute_manual_fallback E errors ir w of (k, ir', w') \<Rightarrow>
            f \<notin> fst ` set (drop (length (writes w)) (writes w'))
            \<and> read_file w' f = read_file w f)
        \<and> (agent_quiet E agent errors iter w f \<longrightarrow>
            (case execute_with_langchain_agent E agent errors iter ir w of (k, ir', w') \<Rightarrow>
              f \<notin> fst ` set (drop (length (writes w)) (writes w'))
              \<and> read_file w' f = read_file w f)))"
proof -
  have 1: "extract_code_from_result (tool_run E t current_code) = Some current_code \<longrightarrow>
      try_tool E t (current_code, code_modified, w)
        = (current_code, code_modified, log_call w (ToolCall t current_code))"
    by (simp add: try_tool_noop)
  have 2: "fst (apply_fallback_tools E f code w) = chain_modified E code"
    by (simp add: apply_fallback_tools_eq)
  have 3: "writes (snd (apply_fallback_tools E f code w))
       = writes w @ (if chain_modified E code then [(f, chain_text E code)] else [])"
    by (simp add: apply_fallback_tools_eq write_file_def)
  have 4: "read_file w f = Text code \<and> extract_code_from_result (tool_run E t code) = Some code \<longrightarrow>
      manual_fix_file E t f (n, w) = (n, log_call w (ToolCall t code))"
    by (simp add: manual_fix_file_noop)
  have 5: "read_file w f = Text code
       \<and> agent \<lparr>req_file = f, req_code = code, req_errors = errors, req_iteration = iter\<rparr>
           = AgentReturns (Some agent_output) steps
       \<and> extract_code_from_agent_output E agent_output = Some code \<and> code \<noteq> [] \<longrightarrow>
      agent_fix_file E agent errors iter f (n, ir, w) = (n, ir, log_call w (AgentCall f))"
    using agent_fix_file_noop[of w f code agent errors iter agent_output steps E n ir] by blast
  have 6: "case execute_manual_fallback E errors ir w of (k, ir', w') \<Rightarrow>
         length (writes w') = length (writes w) + k
         \<and> changing (files w) (drop (length (writes w)) (writes w'))"
    using execute_manual_fallback_changed[of E errors ir w]
    by (cases "execute_manual_fallback E errors ir w") simp
  have 7: "case execute_with_langchain_agent E agent errors iter ir w of (k, ir', w') \<Rightarrow>
         length (writes w') = length (writes w) + k"
    using execute_with_langchain_agent_count[of E agent errors iter ir w]
    by (cases "execute_with_langchain_agent E agent errors iter ir w") simp
  have 8: "quiet E w f \<longrightarrow>
        (case execute_manual_fallback E errors ir w of (k, ir', w') \<Rightarrow>
            f \<notin> fst ` set (drop (length (writes w)) (writes w'))
            \<and> read_file w' f = read_file w f)
        \<and> (agent_quiet E agent errors iter w f \<longrightarrow>
            (case execute_with_langchain_agent E agent errors iter ir w of (k, ir', w') \<Rightarrow>
              f \<notin> fst ` set (drop (length (writes w)) (writes w'))
              \<and> read_file w' f = read_file w f))"
    using quiet_file_not_written[of E w f errors ir agent iter] by blast
  from 1 2 3 4 5 6 7 8 show ?thesis
    by (intro conjI) (erule conjE | assumption)+
qed

theorem noop_outcome_no_write_witness:
  \<open>manual_fix_file (example_env None) PyUpgradeTool ''main.py'' (1, after_dialect_converter)
     = (1, log_call after_dialect_converter (ToolCall PyUpgradeTool ''print("a")''))
   \<and> try_tool (example_env None) ModernizeTool (''x = 1'', False, fresh two_files)
     = (''x = 1'', False, log_call (fresh two_files) (ToolCall ModernizeTool ''x = 1''))
   \<and> agent_fix_file (example_env None) echo_agent [] 1 ''a.py'' (0, ir0, fresh two_files)
     = (0, ir0, log_call (fresh two_files) (AgentCall ''a.py''))
   \<and> (case execute_manual_fallback (example_env None)
              (snd (attempt_compilation (example_env None) (fresh two_files))) ir0 (fresh two_files)
       of (k, ir', w') \<Rightarrow>
            ''a.py'' \<notin> fst ` set (drop (length (writes (fresh two_files))) (writes w'))
            \<and> read_file w' ''a.py'' = read_file (fresh two_files) ''a.py'')
   \<and> (case execute_manual_fallback (example_env None)
              (snd (attempt_compilation (example_env None) (fresh two_files))) ir0 (fresh two_files)
       of (k, ir', w') \<Rightarrow>
            k = 1 \<and> writes w' = [(''main.py'', ''print("a")'')]
            \<and> calls w' = [ToolCall Python2To3Tool ''x = 1'', ToolCall Python2To3Tool ''print "a"'',
                          ToolCall PyUpgradeTool ''x = 1'', ToolCall PyUpgradeTool ''print("a")''])\<close>
proof (intro conjI)
  have h4: \<open>read_file after_dialect_converter ''main.py'' = Text ''print("a")''
      \<and> extract_code_from_result (tool_run (example_env None) PyUpgradeTool ''print("a")'')
          = Some ''print("a")''\<close>
    by code_simp
  from noop_outcome_no_write[where E = "example_env None" and t = PyUpgradeTool
      and f = "''main.py''" and code = \<open>''print("a")''\<close> and w = after_dialect_converter
      and n = 1] h4
  show \<open>manual_fix_file (example_env None) PyUpgradeTool ''main.py'' (1, after_dialect_converter)
     = (1, log_call after_dialect_converter (ToolCall PyUpgradeTool ''print("a")''))\<close>
    by blast
  have h1: "extract_code_from_result (tool_run (example_env None) ModernizeTool ''x = 1'')
      = Some ''x = 1''"
    by code_simp
  from noop_outcome_no_write[where E = "example_env None" and t = ModernizeTool
      and current_code = "''x = 1''" and code_modified = False and w = "fresh two_files"] h1
  show "try_tool (example_env None) ModernizeTool (''x = 1'', False, fresh two_files)
     = (''x = 1'', False, log_call (fresh two_files) (ToolCall ModernizeTool ''x = 1''))"
    by blast
  have h5: "read_file (fresh two_files) ''a.py'' = Text ''x = 1''
      \<and> echo_agent \<lparr>req_file = ''a.py'', req_code = ''x = 1'', req_errors = [],
                      req_iteration = 1\<rparr>
          = AgentReturns (Some (''Here is the code:\<newline>'' @ fence ''x = 1'')) None
      \<and> extract_code_from_agent_output (example_env None)
            (''Here is the code:\<newline>'' @ fence ''x = 1'') = Some ''x = 1''
      \<and> ''x = 1'' \<noteq> []"
    by code_simp
  from noop_outcome_no_write[where E = "example_env None" and f = "''a.py''"
      and code = "''x = 1''" and w = "fresh two_files" and agent = echo_agent and errors = "[]"
      and iter = 1 and agent_output = "''Here is the code:\<newline>'' @ fence ''x = 1''"
      and steps = None and n = 0 and ir = ir0] h5
  show "agent_fix_file (example_env None) echo_agent [] 1 ''a.py'' (0, ir0, fresh two_files)
     = (0, ir0, log_call (fresh two_files) (AgentCall ''a.py''))"
    by blast
  from noop_outcome_no_write[where E = "example_env None" and f = "''a.py''"
      and w = "fresh two_files" and ir = ir0 and agent = echo_agent and iter = 1
      and errors = "snd (attempt_compilation (example_env None) (fresh two_files))",
      THEN conjunct2, THEN conjunct2, THEN conjunct2, THEN conjunct2, THEN conjunct2,
      THEN conjunct2, THEN conjunct2]
    quiet_a[of None]
  show "case execute_manual_fallback (example_env None)
              (snd (attempt_compilation (example_env None) (fresh two_files))) ir0 (fresh two_files)
       of (k, ir', w') \<Rightarrow>
            ''a.py'' \<notin> fst ` set (drop (length (writes (fresh two_files))) (writes w'))
            \<and> read_file w' ''a.py'' = read_file (fresh two_files) ''a.py''"
    by (rule mp[THEN conjunct1])
  show \<open>case execute_manual_fallback (example_env None)
              (snd (attempt_compilation (example_env None) (fresh two_files))) ir0 (fresh two_files)
       of (k, ir', w') \<Rightarrow>
            k = 1 \<and> writes w' = [(''main.py'', ''print("a")'')]
            \<and> calls w' = [ToolCall Python2To3Tool ''x = 1'', ToolCall Python2To3Tool ''print "a"'',
                          ToolCall PyUpgradeTool ''x = 1'', ToolCall PyUpgradeTool ''print("a")'']\<close>
    by code_simp
qed

text \<open>
  The comparison is between the text of the report's block and the text read from the
  file, as they are. The tools strip the text they are given, so the block of a report on
  a file that ends with a newline holds a shorter text than the file, also when the
  report says that nothing was changed.
\<close>

lemma stripped_block_differs:
  \<open>(case pyupgrade_run example_pyupgrade (Str ''x = 1\<newline>'') of
       Inr report \<Rightarrow> extract_code_from_result report = Some ''x = 1''
     | Inl e \<Rightarrow> False)\<close>
  by code_simp

section \<open>Runs with a failing agent, and runs that use up their rounds\<close>

lemma frame_all_quiet:
  assumes "frame (fst ` set (files w)) w w' n"
  shows "n = 0 \<and> files w' = files w \<and> writes w' = writes w"
proof -
  from assms obtain ws where ws: "writes w' = writes w @ ws" "files w' = replay (files w) ws"
    "length ws = n" "fst ` set ws \<subseteq> {}"
    by (auto simp: frame_def)
  from ws(4) have "ws = []" by auto
  with ws show ?thesis by (simp add: replay_def)
qed

lemma agent_quiet_failing: "agent_quiet E failing_agent errors iter w f"
  by (simp add: agent_quiet_def failing_agent_def split: file_content.splits)

lemma attempt_compilation_status:
  "fst (attempt_compilation E w) = ''success'' \<Longrightarrow> snd (attempt_compilation E w) = []"
  by (simp add: attempt_compilation_def Let_def split: if_splits)

lemma iteration_all_quiet:
  assumes q: "\<forall>f\<in>fst ` set (files w). quiet E w f"
    and a: "agent_executor E = None \<or> agent_executor E = Some failing_agent"
    and r: "execute_iteration_with_agent E iter fl w = (ir, fl', w')"
  shows "fl' = fl \<and> files w' = files w \<and> writes w' = writes w
         \<and> ir = \<lparr>iteration = iter, compilation_status = fst (attempt_compilation E w),
                   compilation_attempts = 1, errors_found = snd (attempt_compilation E w),
                   fixes_applied = 0, agent_steps = [], tools_used = []\<rparr>"
proof -
  obtain status errors where c: "attempt_compilation E w = (status, errors)"
    by (cases "attempt_compilation E w") auto
  let ?ir2 = "\<lparr>iteration = iter, compilation_status = status, compilation_attempts = 1,
               errors_found = errors, fixes_applied = 0, agent_steps = [], tools_used = []\<rparr>"
  show ?thesis
  proof (cases "status = ''success'' \<or> errors = []")
    case True
    then have "errors = []" using attempt_compilation_status[of E w] c by auto
    with r c show ?thesis
      by (auto simp: execute_iteration_with_agent_def Let_def split: if_splits)
  next
    case False
    obtain n ir3 w3 where f: "(case agent_executor E of
                 Some agent \<Rightarrow> execute_with_langchain_agent E agent errors iter ?ir2 w
               | None \<Rightarrow> execute_manual_fallback E errors ?ir2 w) = (n, ir3, w3)"
      by (metis prod_cases3)
    have fr: "frame (fst ` set (files w)) w w3 n \<and> (n = 0 \<longrightarrow> ir3 = ?ir2)"
    proof (cases "agent_executor E")
      case None
      with f have "execute_manual_fallback E errors ?ir2 w = (n, ir3, w3)" by simp
      from execute_manual_fallback_frame[OF q this] show ?thesis .
    next
      case (Some ag)
      with a have ag: "ag = failing_agent" by simp
      from f Some ag
      have e: "execute_with_langchain_agent E failing_agent errors iter ?ir2 w = (n, ir3, w3)"
        by simp
      have "\<forall>f\<in>fst ` set (files w). quiet E w f \<and> agent_quiet E failing_agent errors iter w f"
        using q agent_quiet_failing by blast
      from execute_with_langchain_agent_frame[OF this e] show ?thesis .
    qed
    with frame_all_quiet[of w w3 n] have z: "n = 0" "files w3 = files w" "writes w3 = writes w"
      "ir3 = ?ir2" by auto
    from r c False f z show ?thesis
      by (simp add: execute_iteration_with_agent_def Let_def del: One_nat_def)
  qed
qed

lemma proposes_no_change_agent_field:
  "proposes_no_change (E\<lparr>agent_executor := a\<rparr>) = proposes_no_change E"
  by (simp add: fun_eq_iff proposes_no_change_def)

lemma quiet_agent_field: "quiet (E\<lparr>agent_executor := a\<rparr>) w f = quiet E w f"
  by (simp add: quiet_def proposes_no_change_agent_field split: file_content.splits)

lemma attempt_compilation_agent_field:
  "attempt_compilation (E\<lparr>agent_executor := a\<rparr>) w = attempt_compilation E w"
  by (simp add: attempt_compilation_def check_file_def[abs_def])

lemma run_all_quiet:
  assumes q: "list_all (quiet E (fresh src)) (map fst src)"
    and a: "a = None \<or> a = Some failing_agent"
  shows "final_status (results (execute_migration (E\<lparr>agent_executor := a\<rparr>) m src))
           = (if nat m = 0 then ''max_iterations_reached''
              else if fst (attempt_compilation E (fresh src)) = ''success'' then ''success''
              else ''unknown'')
       \<and> iterations (results (execute_migration (E\<lparr>agent_executor := a\<rparr>) m src))
           = (if nat m = 0 then []
              else [\<lparr>iteration = 1, compilation_status = fst (attempt_compilation E (fresh src)),
                     compilation_attempts = 1,
                     errors_found = snd (attempt_compilation E (fresh src)),
                     fixes_applied = 0, agent_steps = [], tools_used = []\<rparr>])
       \<and> final_migrated_code (execute_migration (E\<lparr>agent_executor := a\<rparr>) m src) = src
       \<and> writes (final_world (execute_migration (E\<lparr>agent_executor := a\<rparr>) m src)) = []"
proof (cases "nat m")
  case 0
  then show ?thesis by (simp add: execute_migration_def)
next
  case (Suc n)
  let ?E = "E\<lparr>agent_executor := a\<rparr>"
  obtain ir fl' w' where it: "execute_iteration_with_agent ?E 1 [] (fresh src) = (ir, fl', w')"
    by (metis prod_cases3)
  have q': "\<forall>f\<in>fst ` set (files (fresh src)). quiet ?E (fresh src) f"
    using q by (auto simp: list_all_iff fresh_def quiet_agent_field)
  have a': "agent_executor ?E = None \<or> agent_executor ?E = Some failing_agent"
    using a by simp
  from iteration_all_quiet[OF q' a' it]
  have z: "fl' = []" "files w' = src" "writes w' = []"
    "ir = \<lparr>iteration = 1, compilation_status = fst (attempt_compilation E (fresh src)),
           compilation_attempts = 1, errors_found = snd (attempt_compilation E (fresh src)),
           fixes_applied = 0, agent_steps = [], tools_used = []\<rparr>"
    by (simp_all add: fresh_def attempt_compilation_agent_field)
  have it': "execute_iteration_with_agent ?E 1 [] \<lparr>files = src, calls = [], writes = []\<rparr>
             = (ir, fl', w')"
    using it by (simp add: fresh_def del: One_nat_def)
  show ?thesis
    using Suc z by (simp add: execute_migration_def it' Let_def del: One_nat_def)
qed

text \<open>The pass of a run whose agent raises on every call.\<close>

lemma agent_fix_file_failing:
  assumes "read_file w f = Text c"
  shows "agent_fix_file E failing_agent errors iter f (n, ir, w) =
     (n + (if chain_modified E c then 1 else 0),
      ir\<lparr>tools_used := tools_used ir
            @ (if chain_modified E c then [FileEntry ''fallback_tools'' (file_name f)] else [])\<rparr>,
      if chain_modified E c
      then write_file (w\<lparr>calls := calls w @ AgentCall f # chain_calls E c\<rparr>) f (chain_text E c)
      else w\<lparr>calls := calls w @ AgentCall f # chain_calls E c\<rparr>)"
  using assms
  by (simp add: agent_fix_file_def failing_agent_def fallback_for_file_def Let_def
      apply_fallback_tools_eq log_call_def)

lemma agent_fix_file_unreadable:
  "read_file w f = Unreadable m \<Longrightarrow>
   agent_fix_file E agent errors iter f (n, ir, w) = (n, ir, w)"
  by (simp add: agent_fix_file_def)

lemma failing_fold:
  assumes "distinct (map fst fs)" and "\<forall>pc\<in>set fs. read_file w (fst pc) = snd pc"
  shows "fold (agent_fix_file E failing_agent errors iter) (map fst fs) (n, ir, w) =
     (n + length (chain_writes E fs),
      ir\<lparr>tools_used := tools_used ir
            @ map (\<lambda>wr. FileEntry ''fallback_tools'' (file_name (fst wr))) (chain_writes E fs)\<rparr>,
      w\<lparr>files := replay (files w) (chain_writes E fs),
        calls := calls w @ chain_call_log E fs,
        writes := writes w @ chain_writes E fs\<rparr>)"
  using assms
proof (induction fs arbitrary: n ir w)
  case Nil
  then show ?case by (simp add: replay_def)
next
  case (Cons pc fs)
  obtain f content where pc: "pc = (f, content)" by (cases pc) auto
  from Cons.prems pc have rd: "read_file w f = content" by simp
  from Cons.prems pc have nf: "f \<notin> fst ` set fs" and d: "distinct (map fst fs)" by auto
  show ?case
  proof (cases content)
    case (Unreadable m)
    have "\<forall>pc\<in>set fs. read_file w (fst pc) = snd pc" using Cons.prems(2) by simp
    from Cons.IH[OF d this, of n ir] show ?thesis
      using pc Unreadable rd by (simp add: agent_fix_file_unreadable)
  next
    case (Text c)
    let ?W = "w\<lparr>calls := calls w @ AgentCall f # chain_calls E c\<rparr>"
    let ?w1 = "if chain_modified E c then write_file ?W f (chain_text E c) else ?W"
    let ?n1 = "n + (if chain_modified E c then 1 else 0)"
    let ?ir1 = "ir\<lparr>tools_used := tools_used ir
            @ (if chain_modified E c then [FileEntry ''fallback_tools'' (file_name f)] else [])\<rparr>"
    have step: "agent_fix_file E failing_agent errors iter f (n, ir, w) = (?n1, ?ir1, ?w1)"
      using rd Text by (simp add: agent_fix_file_failing)
    have rest: "\<forall>pc\<in>set fs. read_file ?w1 (fst pc) = snd pc"
    proof
      fix qc assume q: "qc \<in> set fs"
      then have "fst qc \<noteq> f" using nf by auto
      then have "read_file ?w1 (fst qc) = read_file w (fst qc)"
        by (simp add: read_file_write_other) (simp add: read_file_def)
      with Cons.prems(2) q show "read_file ?w1 (fst qc) = snd qc" by simp
    qed
    from Cons.IH[OF d rest, of ?n1 ?ir1] show ?thesis
      using pc Text step
      by (simp add: replay_def write_file_def apply_write_def)
  qed
qed

lemma failing_agent_pass:
  assumes "distinct (python_files w)"
  shows "execute_with_langchain_agent E failing_agent errors iter ir w =
     (length (chain_writes E (files w)),
      ir\<lparr>tools_used := tools_used ir
            @ map (\<lambda>wr. FileEntry ''fallback_tools'' (file_name (fst wr)))
                (chain_writes E (files w))\<rparr>,
      w\<lparr>files := replay (files w) (chain_writes E (files w)),
        calls := calls w @ chain_call_log E (files w),
        writes := writes w @ chain_writes E (files w)\<rparr>)"
proof -
  have d: "distinct (map fst (files w))" using assms by (simp add: python_files_def)
  then have "\<forall>pc\<in>set (files w). read_file w (fst pc) = snd pc"
    by (auto simp: read_file_def)
  from failing_fold[OF d this, of E errors iter 0 ir] show ?thesis
    by (simp add: execute_with_langchain_agent_def python_files_def)
qed

lemma chain_writes_valid: "list_all (\<lambda>wr. validate_python_code E (snd wr)) (chain_writes E fs)"
  by (induction E fs rule: chain_writes.induct) (simp_all add: chain_modified_valid)

text \<open>The entries the manual fallback appends to \<^verbatim>\<open>tools_used\<close>.\<close>

lemma manual_apply_tool_entries:
  assumes "manual_apply_tool E t (n, ir, w) = (n', ir', w')"
  shows "\<exists>es. tools_used ir' = tools_used ir @ es \<and> list_all is_tool_entry es"
  using assms
  by (auto simp: manual_apply_tool_def split: prod.splits if_splits)

lemma manual_tools_fold_entries:
  assumes "fold (manual_apply_tool E) ts (n, ir, w) = (n', ir', w')"
  shows "\<exists>es. tools_used ir' = tools_used ir @ es \<and> list_all is_tool_entry es"
  using assms
proof (induction ts arbitrary: n ir w)
  case Nil
  then show ?case by simp
next
  case (Cons t ts)
  obtain n1 ir1 w1 where s1: "manual_apply_tool E t (n, ir, w) = (n1, ir1, w1)"
    by (metis prod_cases3)
  from manual_apply_tool_entries[OF s1]
  obtain e1 where e1: "tools_used ir1 = tools_used ir @ e1" "list_all is_tool_entry e1" by auto
  from Cons.prems s1 have "fold (manual_apply_tool E) ts (n1, ir1, w1) = (n', ir', w')" by simp
  from Cons.IH[OF this]
  obtain e2 where e2: "tools_used ir' = tools_used ir1 @ e2" "list_all is_tool_entry e2" by auto
  from e1 e2 show ?case by (intro exI[of _ "e1 @ e2"]) simp
qed

lemma execute_manual_fallback_entries:
  assumes "execute_manual_fallback E errors ir w = (n, ir', w')"
  shows "take (length (tools_used ir)) (tools_used ir') = tools_used ir
         \<and> list_all is_tool_entry (drop (length (tools_used ir)) (tools_used ir'))"
  using manual_tools_fold_entries[of E "tool_sequence E errors" 0 ir w n ir' w'] assms
  by (auto simp: execute_manual_fallback_def)

text \<open>The shape of the entries of \<^verbatim>\<open>tools_used\<close> over a whole run.\<close>

lemma agent_fix_file_failing_entries:
  assumes "agent_fix_file E failing_agent errors iter g (n, ir, w) = (n', ir', w')"
  shows "\<exists>es. tools_used ir' = tools_used ir @ es \<and> list_all is_fallback_entry es"
  using assms
  by (cases "read_file w g")
     (auto simp: agent_fix_file_def failing_agent_def fallback_for_file_def Let_def
        split: prod.splits bool.splits if_splits)

lemma failing_fold_entries:
  assumes "fold (agent_fix_file E failing_agent errors iter) gs (n, ir, w) = (n', ir', w')"
  shows "\<exists>es. tools_used ir' = tools_used ir @ es \<and> list_all is_fallback_entry es"
  using assms
proof (induction gs arbitrary: n ir w)
  case Nil
  then show ?case by simp
next
  case (Cons g gs)
  obtain n1 ir1 w1 where s1: "agent_fix_file E failing_agent errors iter g (n, ir, w) = (n1, ir1, w1)"
    by (metis prod_cases3)
  from agent_fix_file_failing_entries[OF s1]
  obtain e1 where e1: "tools_used ir1 = tools_used ir @ e1" "list_all is_fallback_entry e1" by auto
  from Cons.prems s1
  have "fold (agent_fix_file E failing_agent errors iter) gs (n1, ir1, w1) = (n', ir', w')" by simp
  from Cons.IH[OF this]
  obtain e2 where e2: "tools_used ir' = tools_used ir1 @ e2" "list_all is_fallback_entry e2" by auto
  from e1 e2 show ?case by (intro exI[of _ "e1 @ e2"]) simp
qed

lemma iteration_entries:
  assumes "execute_iteration_with_agent E iter fl w = (ir, fl', w')"
  shows "(agent_executor E = None \<longrightarrow> list_all is_tool_entry (tools_used ir))
       \<and> (agent_executor E = Some failing_agent \<longrightarrow> list_all is_fallback_entry (tools_used ir))"
proof -
  obtain status errors where c: "attempt_compilation E w = (status, errors)"
    by (cases "attempt_compilation E w") auto
  let ?ir2 = "\<lparr>iteration = iter, compilation_status = status, compilation_attempts = 1,
               errors_found = errors, fixes_applied = 0, agent_steps = [], tools_used = []\<rparr>"
  show ?thesis
  proof (cases "status = ''success'' \<or> errors = []")
    case True
    with assms c have "tools_used ir = []"
      by (auto simp: execute_iteration_with_agent_def Let_def split: if_splits)
    then show ?thesis by simp
  next
    case False
    obtain n ir3 w3 where f: "(case agent_executor E of
                 Some agent \<Rightarrow> execute_with_langchain_agent E agent errors iter ?ir2 w
               | None \<Rightarrow> execute_manual_fallback E errors ?ir2 w) = (n, ir3, w3)"
      by (metis prod_cases3)
    from assms c False f have t: "tools_used ir = tools_used ir3"
      by (auto simp: execute_iteration_with_agent_def Let_def simp del: One_nat_def
          split: if_splits prod.splits)
    show ?thesis
    proof (intro conjI impI)
      assume "agent_executor E = None"
      with f have "execute_manual_fallback E errors ?ir2 w = (n, ir3, w3)" by simp
      from execute_manual_fallback_entries[OF this] t
      show "list_all is_tool_entry (tools_used ir)" by simp
    next
      assume "agent_executor E = Some failing_agent"
      with f have "fold (agent_fix_file E failing_agent errors iter) (python_files w) (0, ?ir2, w)
          = (n, ir3, w3)"
        by (simp add: execute_with_langchain_agent_def)
      from failing_fold_entries[OF this] t
      show "list_all is_fallback_entry (tools_used ir)" by auto
    qed
  qed
qed

lemma loop_entries:
  assumes "\<And>iter fl w ir fl' w'. execute_iteration_with_agent E iter fl w = (ir, fl', w') \<Longrightarrow> P ir"
    and "list_all P (iterations res)"
  shows "list_all P (iterations (fst (migration_loop E n iter (res, fl, w))))"
  using assms(2)
proof (induction n arbitrary: iter res fl w)
  case 0
  then show ?case by simp
next
  case (Suc n)
  obtain ir fl' w' where it: "execute_iteration_with_agent E iter fl w = (ir, fl', w')"
    by (cases "execute_iteration_with_agent E iter fl w") auto
  let ?res1 = "res\<lparr>iterations := iterations res @ [ir],
                     total_compilation_attempts :=
                       total_compilation_attempts res + compilation_attempts ir\<rparr>"
  have p: "list_all P (iterations ?res1)" using Suc.prems assms(1)[OF it] by simp
  from Suc.IH[OF p, of "Suc iter" fl' w'] p show ?case
    using it by (simp add: Let_def)
qed

lemma run_entries:
  "(agent_executor E = None \<longrightarrow>
      list_all (\<lambda>ir. list_all is_tool_entry (tools_used ir))
        (iterations (results (execute_migration E m src))))
   \<and> (agent_executor E = Some failing_agent \<longrightarrow>
      list_all (\<lambda>ir. list_all is_fallback_entry (tools_used ir))
        (iterations (results (execute_migration E m src))))"
proof -
  let ?P = "\<lambda>ir. (agent_executor E = None \<longrightarrow> list_all is_tool_entry (tools_used ir))
       \<and> (agent_executor E = Some failing_agent \<longrightarrow> list_all is_fallback_entry (tools_used ir))"
  let ?res0 = "\<lparr>iterations = [], final_status = ''unknown'', successful_fixes = [],
                      total_compilation_attempts = 0,
                      agent_available = (agent_executor E \<noteq> None)\<rparr>"
  let ?w0 = "\<lparr>files = src, calls = [], writes = []\<rparr>"
  have "list_all ?P (iterations (fst (migration_loop E (nat m) 1 (?res0, [], ?w0))))"
    by (rule loop_entries) (simp_all add: iteration_entries)
  then have "list_all ?P (iterations (results (execute_migration E m src)))"
    by (cases "migration_loop E (nat m) 1 (?res0, [], ?w0)")
       (simp add: execute_migration_def)
  then show ?thesis by (auto simp: list_all_iff)
qed

lemma entry_shapes_disjoint:
  "list_all is_fallback_entry es \<Longrightarrow> list_all is_tool_entry es \<Longrightarrow> es = []"
proof (cases es)
  case Nil
  then show ?thesis by simp
next
  case (Cons e es')
  assume "list_all is_fallback_entry es" "list_all is_tool_entry es"
  with Cons have "is_fallback_entry e" "is_tool_entry e" by simp_all
  then show ?thesis by (cases e) simp_all
qed

lemma traces_agree_only_empty:
  assumes "list_all (\<lambda>r. list_all is_fallback_entry (tools_used r)) as"
    and "list_all (\<lambda>r. list_all is_tool_entry (tools_used r)) bs"
    and "map tools_used as = map tools_used bs"
  shows "list_all (\<lambda>r. tools_used r = []) as"
proof -
  have "tools_used r = []" if "r \<in> set as" for r
  proof -
    from that have "tools_used r \<in> set (map tools_used bs)"
      using assms(3) by (metis image_eqI set_map)
    then obtain r' where "r' \<in> set bs" "tools_used r' = tools_used r" by auto
    with assms(1,2) that show ?thesis
      by (auto simp: list_all_iff intro: entry_shapes_disjoint)
  qed
  then show ?thesis by (simp add: list_all_iff)
qed

text \<open>Runs over a tree on which no tool proposes a change.\<close>

lemma quiet_tree_runs_agree:
  assumes "list_all (quiet E (fresh src)) (map fst src)"
  shows "final_status (results (execute_migration (E\<lparr>agent_executor := Some failing_agent\<rparr>) m src))
           = final_status (results (execute_migration (E\<lparr>agent_executor := None\<rparr>) m src))
       \<and> iterations (results (execute_migration (E\<lparr>agent_executor := Some failing_agent\<rparr>) m src))
           = iterations (results (execute_migration (E\<lparr>agent_executor := None\<rparr>) m src))
       \<and> final_migrated_code (execute_migration (E\<lparr>agent_executor := Some failing_agent\<rparr>) m src)
           = final_migrated_code (execute_migration (E\<lparr>agent_executor := None\<rparr>) m src)"
  using run_all_quiet[OF assms, of "Some failing_agent" m] run_all_quiet[OF assms, of None m]
  by simp

lemma quiet_unfixable: "list_all (quiet (example_env None) (fresh unfixable)) (map fst unfixable)"
  by (simp add: quiet_def read_file_def fresh_def unfixable_def tools_def proposes_no_change_def
      example_env_def example_tool_run_def example_compile_def except_py2_def except_py3_def
      fenced_def extract_code_from_result_def search_python_fence_def)

text \<open>
  Claim C5, amended. When the agent raises on every call, a fixing pass over a tree of
  distinct paths hands every readable file to the agent and then to the fallback chain:
  the calls are the agent call and the calls of the chain, file by file; a file is written
  exactly when a block of the chain took a new text, with the text the chain ends with,
  which passed the validity check; and each written file adds one fix and one entry
  \<^verbatim>\<open>fallback_tools\<close> with its name to \<^verbatim>\<open>tools_used\<close>. Over the whole run every
  entry of every round has this shape, while in a run with no agent every entry has the
  other shape, a tool name with a number of files: the traces of the two runs agree only
  when every round of them is empty. The two runs end with the same final status, the same round
  records and the same tree when no tool proposes a change to any file of the tree.
\<close>

theorem failing_agent_runs_fallback_chain:
  "(distinct (python_files w) \<longrightarrow>
      execute_with_langchain_agent E failing_agent errors iter ir w =
        (length (chain_writes E (files w)),
         ir\<lparr>tools_used := tools_used ir
               @ map (\<lambda>wr. FileEntry ''fallback_tools'' (file_name (fst wr)))
                   (chain_writes E (files w))\<rparr>,
         w\<lparr>files := replay (files w) (chain_writes E (files w)),
           calls := calls w @ chain_call_log E (files w),
           writes := writes w @ chain_writes E (files w)\<rparr>))
   \<and> list_all (\<lambda>wr. validate_python_code E (snd wr)) (chain_writes E (files w))
   \<and> list_all (\<lambda>r. list_all is_fallback_entry (tools_used r))
         (iterations (results (execute_migration (E\<lparr>agent_executor := Some failing_agent\<rparr>) m src)))
   \<and> list_all (\<lambda>r. list_all is_tool_entry (tools_used r))
         (iterations (results (execute_migration (E\<lparr>agent_executor := None\<rparr>) m src)))
   \<and> (map tools_used (iterations (results (execute_migration (E\<lparr>agent_executor := Some failing_agent\<rparr>) m src)))
          = map tools_used (iterations (results (execute_migration (E\<lparr>agent_executor := None\<rparr>) m src)))
        \<longrightarrow> list_all (\<lambda>r. tools_used r = [])
              (iterations (results (execute_migration (E\<lparr>agent_executor := Some failing_agent\<rparr>) m src))))
   \<and> (list_all (quiet E (fresh src)) (map fst src) \<longrightarrow>
        final_status (results (execute_migration (E\<lparr>agent_executor := Some failing_agent\<rparr>) m src))
           = final_status (results (execute_migration (E\<lparr>agent_executor := None\<rparr>) m src))
        \<and> iterations (results (execute_migration (E\<lparr>agent_executor := Some failing_agent\<rparr>) m src))
           = iterations (results (execute_migration (E\<lparr>agent_executor := None\<rparr>) m src))
        \<and> final_migrated_code (execute_migration (E\<lparr>agent_executor := Some failing_agent\<rparr>) m src)
           = final_migrated_code (execute_migration (E\<lparr>agent_executor := None\<rparr>) m src))"
proof -
  have 1: "distinct (python_files w) \<longrightarrow>
      execute_with_langchain_agent E failing_agent errors iter ir w =
        (length (chain_writes E (files w)),
         ir\<lparr>tools_used := tools_used ir
               @ map (\<lambda>wr. FileEntry ''fallback_tools'' (file_name (fst wr)))
                   (chain_writes E (files w))\<rparr>,
         w\<lparr>files := replay (files w) (chain_writes E (files w)),
           calls := calls w @ chain_call_log E (files w),
           writes := writes w @ chain_writes E (files w)\<rparr>)"
    using failing_agent_pass[of w E errors iter ir] by blast
  have 2: "list_all (\<lambda>wr. validate_python_code E (snd wr)) (chain_writes E (files w))"
    by (rule chain_writes_valid)
  have 3: "list_all (\<lambda>r. list_all is_fallback_entry (tools_used r))
         (iterations (results (execute_migration (E\<lparr>agent_executor := Some failing_agent\<rparr>) m src)))"
    using run_entries[of "E\<lparr>agent_executor := Some failing_agent\<rparr>" m src] by simp
  have 5: "list_all (\<lambda>r. list_all is_tool_entry (tools_used r))
         (iterations (results (execute_migration (E\<lparr>agent_executor := None\<rparr>) m src)))"
    using run_entries[of "E\<lparr>agent_executor := None\<rparr>" m src] by simp
  have 4: "list_all (quiet E (fresh src)) (map fst src) \<longrightarrow>
        final_status (results (execute_migration (E\<lparr>agent_executor := Some failing_agent\<rparr>) m src))
           = final_status (results (execute_migration (E\<lparr>agent_executor := None\<rparr>) m src))
        \<and> iterations (results (execute_migration (E\<lparr>agent_executor := Some failing_agent\<rparr>) m src))
           = iterations (results (execute_migration (E\<lparr>agent_executor := None\<rparr>) m src))
        \<and> final_migrated_code (execute_migration (E\<lparr>agent_executor := Some failing_agent\<rparr>) m src)
           = final_migrated_code (execute_migration (E\<lparr>agent_executor := None\<rparr>) m src)"
    using quiet_tree_runs_agree[of E src m] by blast
  have 6: "(map tools_used (iterations (results (execute_migration (E\<lparr>agent_executor := Some failing_agent\<rparr>) m src)))
            = map tools_used (iterations (results (execute_migration (E\<lparr>agent_executor := None\<rparr>) m src)))
          \<longrightarrow> list_all (\<lambda>r. tools_used r = [])
                (iterations (results (execute_migration (E\<lparr>agent_executor := Some failing_agent\<rparr>) m src))))"
    using traces_agree_only_empty[OF 3 5] by blast
  from 1 2 3 5 6 4 show ?thesis
    by (intro conjI) (erule conjE | assumption)+
qed

theorem failing_agent_runs_fallback_chain_witness:
  \<open>distinct (python_files (fresh two_files))
   \<and> execute_with_langchain_agent (example_env (Some failing_agent)) failing_agent [] 1 ir0
        (fresh two_files)
     = (length (chain_writes (example_env (Some failing_agent)) (files (fresh two_files))),
        ir0\<lparr>tools_used := tools_used ir0
               @ map (\<lambda>wr. FileEntry ''fallback_tools'' (file_name (fst wr)))
                   (chain_writes (example_env (Some failing_agent)) (files (fresh two_files)))\<rparr>,
        (fresh two_files)
          \<lparr>files := replay (files (fresh two_files))
                     (chain_writes (example_env (Some failing_agent)) (files (fresh two_files))),
           calls := calls (fresh two_files)
                     @ chain_call_log (example_env (Some failing_agent)) (files (fresh two_files)),
           writes := writes (fresh two_files)
                     @ chain_writes (example_env (Some failing_agent)) (files (fresh two_files))\<rparr>)
   \<and> chain_writes (example_env (Some failing_agent)) (files (fresh two_files))
     = [(''main.py'', ''print("a")'')]
   \<and> chain_call_log (example_env (Some failing_agent)) (files (fresh two_files))
     = [AgentCall ''a.py'', ToolCall PyUpgradeTool ''x = 1'', ToolCall ModernizeTool ''x = 1'',
        AgentCall ''main.py'', ToolCall Python2To3Tool ''print "a"'',
        ToolCall PyUpgradeTool ''print("a")'', ToolCall ModernizeTool ''print("a")'']
   \<and> list_all (quiet (example_env None) (fresh unfixable)) (map fst unfixable)
   \<and> final_status (results (execute_migration
         ((example_env None)\<lparr>agent_executor := Some failing_agent\<rparr>) 5 unfixable))
       = final_status (results (execute_migration
         ((example_env None)\<lparr>agent_executor := None\<rparr>) 5 unfixable))
   \<and> list_all (\<lambda>r. tools_used r = [])
         (iterations (results (execute_migration
           ((example_env None)\<lparr>agent_executor := Some failing_agent\<rparr>) 5 unfixable)))\<close>
proof (intro conjI)
  show d: "distinct (python_files (fresh two_files))" by code_simp
  from failing_agent_runs_fallback_chain[where E = "example_env (Some failing_agent)"
      and w = "fresh two_files" and errors = "[]" and iter = 1 and ir = ir0, THEN conjunct1] d
  show "execute_with_langchain_agent (example_env (Some failing_agent)) failing_agent [] 1 ir0
        (fresh two_files)
     = (length (chain_writes (example_env (Some failing_agent)) (files (fresh two_files))),
        ir0\<lparr>tools_used := tools_used ir0
               @ map (\<lambda>wr. FileEntry ''fallback_tools'' (file_name (fst wr)))
                   (chain_writes (example_env (Some failing_agent)) (files (fresh two_files)))\<rparr>,
        (fresh two_files)
          \<lparr>files := replay (files (fresh two_files))
                     (chain_writes (example_env (Some failing_agent)) (files (fresh two_files))),
           calls := calls (fresh two_files)
                     @ chain_call_log (example_env (Some failing_agent)) (files (fresh two_files)),
           writes := writes (fresh two_files)
                     @ chain_writes (example_env (Some failing_agent)) (files (fresh two_files))\<rparr>)"
    by (rule mp)
  show \<open>chain_writes (example_env (Some failing_agent)) (files (fresh two_files))
     = [(''main.py'', ''print("a")'')]\<close>
    by code_simp
  show \<open>chain_call_log (example_env (Some failing_agent)) (files (fresh two_files))
     = [AgentCall ''a.py'', ToolCall PyUpgradeTool ''x = 1'', ToolCall ModernizeTool ''x = 1'',
        AgentCall ''main.py'', ToolCall Python2To3Tool ''print "a"'',
        ToolCall PyUpgradeTool ''print("a")'', ToolCall ModernizeTool ''print("a")'']\<close>
    by code_simp
  show q: "list_all (quiet (example_env None) (fresh unfixable)) (map fst unfixable)"
    by (rule quiet_unfixable)
  from failing_agent_runs_fallback_chain[where E = "example_env None" and src = unfixable
      and m = 5, THEN conjunct2, THEN conjunct2, THEN conjunct2, THEN conjunct2,
      THEN conjunct2] q
  show "final_status (results (execute_migration
         ((example_env None)\<lparr>agent_executor := Some failing_agent\<rparr>) 5 unfixable))
       = final_status (results (execute_migration
         ((example_env None)\<lparr>agent_executor := None\<rparr>) 5 unfixable))"
    by (rule mp[THEN conjunct1])
  have t: "map tools_used (iterations (results (execute_migration
         ((example_env None)\<lparr>agent_executor := Some failing_agent\<rparr>) 5 unfixable)))
       = map tools_used (iterations (results (execute_migration
         ((example_env None)\<lparr>agent_executor := None\<rparr>) 5 unfixable)))"
    by code_simp
  from failing_agent_runs_fallback_chain[where E = "example_env None" and src = unfixable
      and m = 5, THEN conjunct2, THEN conjunct2, THEN conjunct2, THEN conjunct2,
      THEN conjunct1] t
  show "list_all (\<lambda>r. tools_used r = [])
         (iterations (results (execute_migration
           ((example_env None)\<lparr>agent_executor := Some failing_agent\<rparr>) 5 unfixable)))"
    by (rule mp)
qed

text \<open>
  Claim C5 as stated fails. On a tree whose one file holds a \<^verbatim>\<open>print\<close> statement both
  runs end with \<^verbatim>\<open>success\<close> after writing the same valid text, and their traces
  differ: one entry \<^verbatim>\<open>fallback_tools\<close> for the file, against one entry for the dialect
  converter with a count. On a tree whose one file holds an \<^verbatim>\<open>except\<close> clause of
  Python 2 the final statuses differ: the chain of the first run tries the dialect
  converter because of the text, and ends with \<^verbatim>\<open>success\<close>; the manual fallback
  leaves it out because the error message names neither \<^verbatim>\<open>print\<close> nor
  \<^verbatim>\<open>raw_input\<close>, writes nothing and ends with \<^verbatim>\<open>unknown\<close>.
\<close>

theorem failing_agent_differs_from_no_agent_counterexample:
  \<open>final_status (results (execute_migration (example_env (Some failing_agent)) 5 fixable))
     = ''success''
   \<and> final_status (results (execute_migration (example_env None) 5 fixable)) = ''success''
   \<and> map tools_used (iterations (results
         (execute_migration (example_env (Some failing_agent)) 5 fixable)))
     = [[FileEntry ''fallback_tools'' ''main.py'']]
   \<and> map tools_used (iterations (results (execute_migration (example_env None) 5 fixable)))
     = [[ToolEntry ''python2to3'' 1]]
   \<and> writes (final_world (execute_migration (example_env None) 5 fixable))
     = [(''main.py'', ''print("a")'')]
   \<and> validate_python_code (example_env None) ''print("a")''
   \<and> final_status (results (execute_migration (example_env (Some failing_agent)) 5 except_tree))
     = ''success''
   \<and> final_status (results (execute_migration (example_env None) 5 except_tree)) = ''unknown''
   \<and> writes (final_world (execute_migration (example_env None) 5 except_tree)) = []\<close>
  by code_simp

lemma iteration_frame:
  assumes "execute_iteration_with_agent E iter fl w = (ir, fl', w')"
  shows "\<exists>k. frame {} w w' k"
proof -
  obtain status errors where c: "attempt_compilation E w = (status, errors)"
    by (cases "attempt_compilation E w") auto
  let ?ir2 = "\<lparr>iteration = iter, compilation_status = status, compilation_attempts = 1,
               errors_found = errors, fixes_applied = 0, agent_steps = [], tools_used = []\<rparr>"
  show ?thesis
  proof (cases "status = ''success'' \<or> errors = []")
    case True
    with assms c have "w' = w"
      by (auto simp: execute_iteration_with_agent_def Let_def split: if_splits)
    then show ?thesis using frame_refl by blast
  next
    case False
    obtain n ir3 w3 where f: "(case agent_executor E of
                 Some agent \<Rightarrow> execute_with_langchain_agent E agent errors iter ?ir2 w
               | None \<Rightarrow> execute_manual_fallback E errors ?ir2 w) = (n, ir3, w3)"
      by (metis prod_cases3)
    have fr: "frame {} w w3 n"
    proof (cases "agent_executor E")
      case None
      with f have "execute_manual_fallback E errors ?ir2 w = (n, ir3, w3)" by simp
      from execute_manual_fallback_frame[of "{}", OF _ this] show ?thesis by simp
    next
      case (Some ag)
      with f have "execute_with_langchain_agent E ag errors iter ?ir2 w = (n, ir3, w3)" by simp
      from execute_with_langchain_agent_frame[of "{}", OF _ this] show ?thesis by simp
    qed
    from assms c False f have "w' = w3"
      by (auto simp: execute_iteration_with_agent_def Let_def simp del: One_nat_def
          split: if_splits prod.splits)
    with fr show ?thesis by blast
  qed
qed

lemma loop_frame: "\<exists>k. frame {} w (snd (snd (migration_loop E n iter (res, fl, w)))) k"
proof (induction n arbitrary: iter res fl w)
  case 0
  then show ?case using frame_refl by auto
next
  case (Suc n)
  obtain ir fl' w' where it: "execute_iteration_with_agent E iter fl w = (ir, fl', w')"
    by (metis prod_cases3)
  from iteration_frame[OF it] obtain k1 where k1: "frame {} w w' k1" by blast
  let ?res1 = "res\<lparr>iterations := iterations res @ [ir],
                     total_compilation_attempts :=
                       total_compilation_attempts res + compilation_attempts ir\<rparr>"
  show ?case
  proof (cases "compilation_status ir = ''success'' \<or> fixes_applied ir = 0")
    case True
    then show ?thesis using it k1 by (auto simp: Let_def)
  next
    case False
    from Suc.IH[of w' "Suc iter" ?res1 fl'] obtain k2 where
      "frame {} w' (snd (snd (migration_loop E n (Suc iter) (?res1, fl', w')))) k2" by blast
    from frame_trans[OF k1 this] show ?thesis using it False by (auto simp: Let_def)
  qed
qed

text \<open>
  Claim C7. When the rounds are used up, that is when all of the configured rounds ran and
  each of them ended without success after applying at least one fix, the final status is
  \<^verbatim>\<open>max_iterations_reached\<close> (and in no other case); and the final tree is the
  source tree with every write of the run applied in order, so the improvements of the
  earlier rounds are kept and nothing is rolled back.
\<close>

theorem exhausted_run_keeps_improvements:
  "(final_status (results (execute_migration E m src)) = ''max_iterations_reached'')
     = (length (iterations (results (execute_migration E m src))) = nat m
        \<and> list_all (\<lambda>ir. compilation_status ir \<noteq> ''success'' \<and> 0 < fixes_applied ir)
             (iterations (results (execute_migration E m src))))
   \<and> final_migrated_code (execute_migration E m src)
       = replay src (writes (final_world (execute_migration E m src)))"
proof -
  let ?res0 = "\<lparr>iterations = [], final_status = ''unknown'', successful_fixes = [],
                 total_compilation_attempts = 0,
                 agent_available = (agent_executor E \<noteq> None)\<rparr>"
  let ?w0 = "\<lparr>files = src, calls = [], writes = []\<rparr>"
  obtain res1 fl w where ml: "migration_loop E (nat m) 1 (?res0, [], ?w0) = (res1, fl, w)"
    by (metis prod_cases3)
  have "final_status ?res0 = ''unknown''" by simp
  from loop_exhausted_iff[OF this, of E "nat m" 1 "[]" ?w0] ml
  have a: "(final_status res1 = ''max_iterations_reached'')
           = (length (iterations res1) = nat m \<and> list_all made_progress (iterations res1))"
    by simp
  from loop_frame[of ?w0 E "nat m" 1 ?res0 "[]"] ml
  obtain k where "frame {} ?w0 w k" by auto
  then have b: "files w = replay src (writes w)"
    by (auto simp: frame_def)
  from a b ml show ?thesis
    by (simp add: execute_migration_def list_all_iff made_progress_def)
qed

theorem exhausted_run_keeps_improvements_witness:
  \<open>final_status (results (execute_migration (example_env None) 1 half_fixable))
     = ''max_iterations_reached''
   \<and> final_migrated_code (execute_migration (example_env None) 1 half_fixable)
       = replay half_fixable (writes (final_world (execute_migration (example_env None) 1 half_fixable)))
   \<and> final_migrated_code (execute_migration (example_env None) 1 half_fixable)
       = [(''main.py'', Text ''print("a")\<newline>def f(:'')]\<close>
proof (intro conjI)
  show "final_status (results (execute_migration (example_env None) 1 half_fixable))
     = ''max_iterations_reached''"
    by code_simp
  show "final_migrated_code (execute_migration (example_env None) 1 half_fixable)
       = replay half_fixable (writes (final_world (execute_migration (example_env None) 1 half_fixable)))"
    using exhausted_run_keeps_improvements[of "example_env None" 1 half_fixable]
    by (rule conjunct2)
  show \<open>final_migrated_code (execute_migration (example_env None) 1 half_fixable)
       = [(''main.py'', Text ''print("a")\<newline>def f(:'')]\<close>
    by code_simp
qed


section \<open>The order of the fallback chain\<close>















section \<open>Extraction and validation\<close>














text \<open>The fallback chain writes only text that passed the validity check.\<close>

lemma try_tool_keeps_valid:
  "(m \<longrightarrow> validate_python_code E c) \<Longrightarrow> try_tool E t (c, m, w) = (c', m', w') \<Longrightarrow>
   (m' \<longrightarrow> validate_python_code E c') \<and> writes w' = writes w"
  by (auto simp: try_tool_def Let_def log_call_def split: option.splits if_splits)

lemma fallback_chain_writes_validated_text:
  assumes "apply_fallback_tools E f c w = (True, w')"
  shows "\<exists>txt. writes w' = writes w @ [(f, txt)] \<and> validate_python_code E txt"
proof -
  obtain c1 m1 w1 where s1: "(if list_ex (\<lambda>p. contains p c) py2_markers
             then try_tool E (tools ! 1) (c, False, w) else (c, False, w)) = (c1, m1, w1)"
    by (metis prod_cases3)
  obtain c2 m2 w2 where s2: "try_tool E (tools ! 0) (c1, m1, w1) = (c2, m2, w2)"
    by (metis prod_cases3)
  obtain c3 m3 w3 where s3: "try_tool E (tools ! 2) (c2, m2, w2) = (c3, m3, w3)"
    by (metis prod_cases3)
  have v1: "(m1 \<longrightarrow> validate_python_code E c1) \<and> writes w1 = writes w"
    using s1 try_tool_keeps_valid[of False E c "tools ! 1" w c1 m1 w1]
    by (auto split: if_splits)
  from try_tool_keeps_valid[OF _ s2] v1
  have v2: "(m2 \<longrightarrow> validate_python_code E c2) \<and> writes w2 = writes w" by simp
  from try_tool_keeps_valid[OF _ s3] v2
  have v3: "(m3 \<longrightarrow> validate_python_code E c3) \<and> writes w3 = writes w" by simp
  from assms s1 s2 s3 have "m3" "w' = write_file w3 f c3"
    by (auto simp: apply_fallback_tools_def Let_def split: if_splits)
  with v3 show ?thesis by (auto simp: write_file_def)
qed

text \<open>
  Claim C1 at a failing input. With no agent, the manual fallback writes the text the
  dialect converter returns for a file that has a second syntax error, although that text
  does not pass the validity check; with an agent that fails, the fallback chain rejects
  the same text and writes nothing.
\<close>

theorem manual_fallback_writes_unvalidated_text:
  \<open>writes (final_world (execute_migration (example_env None) 5 half_fixable))
     = [(''main.py'', ''print("a")\<newline>def f(:'')]
   \<and> \<not> validate_python_code (example_env None) ''print("a")\<newline>def f(:''
   \<and> writes (final_world (execute_migration (example_env (Some failing_agent)) 5 half_fixable))
     = []\<close>
  by code_simp

section \<open>The tools never raise\<close>


lemma strip_nonempty: "strip code \<noteq> [] \<Longrightarrow> code \<noteq> []"
  by (auto simp: strip_def)

lemma check_pyupgrade_available_absent:
  "pyupgrade_absent P \<Longrightarrow> check_pyupgrade_available P = Inr False"
  by (auto simp: pyupgrade_absent_def probe_fails_def check_pyupgrade_available_def
      split: sum.splits exn.splits)

lemma check_modernize_module_absent:
  "probe_fails (mz_probe_module M) \<Longrightarrow> check_modernize_module M = Inr False"
  by (auto simp: probe_fails_def check_modernize_module_def split: sum.splits exn.splits)

lemma check_modernize_available_absent:
  "modernize_absent M \<Longrightarrow> check_modernize_available M = Inr False"
  by (auto simp: modernize_absent_def check_modernize_available_def
      check_modernize_module_absent probe_fails_def split: sum.splits exn.splits)

lemma use_lib2to3_absent:
  "lib2to3_absent T \<Longrightarrow> use_lib2to3 T code = (code, False, ''lib2to3 not available'')"
  by (auto simp: lib2to3_absent_def use_lib2to3_def split: sum.splits exn.splits)

lemma pyupgrade_run_returns: "\<exists>report. pyupgrade_run P arg = Inr report"
  by (simp add: pyupgrade_run_def split: sum.splits)

lemma python2to3_run_returns: "\<exists>report. python2to3_run T arg = Inr report"
  by (simp add: python2to3_run_def split: sum.splits)

lemma modernize_run_returns: "\<exists>report. modernize_run M arg = Inr report"
  by (simp add: modernize_run_def split: sum.splits)

lemma invalid_input_reports:
  "arg = Str [] \<or> arg = NotStr (Inr b) \<Longrightarrow>
   pyupgrade_run P arg = Inr invalid_input_report
   \<and> python2to3_run T arg = Inr invalid_input_report
   \<and> modernize_run M arg = Inr invalid_input_report"
  by (auto simp: pyupgrade_run_def pyupgrade_try_def python2to3_run_def python2to3_try_def
      modernize_run_def modernize_try_def)

lemma raising_truth_test_reports:
  "pyupgrade_run P (NotStr (Inl e)) = Inr (''Error during code modernization: '' @ exn_str e)
   \<and> python2to3_run T (NotStr (Inl e)) = Inr (''Error during migration: '' @ exn_str e)
   \<and> modernize_run M (NotStr (Inl e)) = Inr (''Error during modernization: '' @ exn_str e)"
  by (simp add: pyupgrade_run_def pyupgrade_try_def python2to3_run_def python2to3_try_def
      modernize_run_def modernize_try_def)

lemma empty_code_reports:
  "code \<noteq> [] \<Longrightarrow> strip code = [] \<Longrightarrow>
   pyupgrade_run P (Str code) = Inr empty_code_report
   \<and> python2to3_run T (Str code) = Inr empty_code_report
   \<and> modernize_run M (Str code) = Inr empty_code_report"
  by (simp add: pyupgrade_run_def pyupgrade_try_def python2to3_run_def python2to3_try_def
      modernize_run_def modernize_try_def)

lemma internal_exception_reports:
  "(pyupgrade_try P arg = Inl e \<longrightarrow>
      pyupgrade_run P arg = Inr (''Error during code modernization: '' @ exn_str e))
   \<and> (python2to3_try T arg = Inl e \<longrightarrow>
      python2to3_run T arg = Inr (''Error during migration: '' @ exn_str e))
   \<and> (modernize_try M arg = Inl e \<longrightarrow>
      modernize_run M arg = Inr (''Error during modernization: '' @ exn_str e))"
  by (simp add: pyupgrade_run_def python2to3_run_def modernize_run_def)

lemma pyupgrade_missing_backend:
  assumes "pyupgrade_absent P" and "strip code \<noteq> []" and "pu_ast_parse P (strip code) = Inr ()"
  shows "pyupgrade_run P (Str code) =
           (case pu_pattern_based_fallback P (strip code) of
              Inr report \<Rightarrow> Inr report
            | Inl e \<Rightarrow> Inr (''Error during code modernization: '' @ exn_str e))"
  using assms strip_nonempty[OF assms(2)]
  by (simp add: pyupgrade_run_def pyupgrade_try_def check_pyupgrade_available_absent Let_def
      split: sum.splits)

lemma python2to3_missing_backend:
  assumes "lib2to3_absent T" and "strip code \<noteq> []"
    and "p23_detect T (strip code) = Inr ps" and "ps \<noteq> []"
    and "p23_pattern_based_migration T (strip code) = Inr (migrated, changes)"
  shows "python2to3_run T (Str code) =
           Inr (if changes \<noteq> [] then p23_pattern_report ps migrated changes
                else p23_no_fix_report ps (strip code))"
  using assms strip_nonempty[OF assms(2)]
  by (simp add: python2to3_run_def python2to3_try_def use_lib2to3_absent Let_def)

lemma modernize_missing_backend:
  assumes "modernize_absent M" and "strip code \<noteq> []"
    and "mz_detect M (strip code) = Inr issues"
    and "mz_pattern_based_modernization M (strip code) = Inr (updated, changes)"
  shows "modernize_run M (Str code) =
           Inr (if changes \<noteq> []
                then mz_applied_report ''Pattern-based Fallback'' issues updated changes
                       mz_fallback_applied_closing
                else mz_analysis_report [] (strip code) mz_fallback_analysis_closing)"
  using assms strip_nonempty[OF assms(2)]
  by (simp add: modernize_run_def modernize_try_def check_modernize_available_absent Let_def)

lemma pyupgrade_timeout:
  assumes "check_pyupgrade_available P = Inr True" and "strip code \<noteq> []"
    and "pu_ast_parse P (strip code) = Inr ()" and "pu_write_temp P (strip code) = Inr ()"
    and "pu_subprocess P (strip code) = Inl (TimeoutExpired m)" and "pu_cleanup P = Inr ()"
  shows "pyupgrade_run P (Str code) = Inr ''Error: pyupgrade command timed out''"
  using assms strip_nonempty[OF assms(2)]
  by (simp add: pyupgrade_run_def pyupgrade_try_def run_pyupgrade_on_code_def with_cleanup_def
      Let_def)

lemma modernize_timeout:
  assumes "check_modernize_available M = Inr True" and "strip code \<noteq> []"
    and "mz_detect M (strip code) = Inr issues" and "mz_write_temp M (strip code) = Inr ()"
    and "mz_subprocess M (strip code) = Inl (TimeoutExpired m)" and "mz_cleanup M = Inr ()"
    and "mz_pattern_based_modernization M (strip code) = Inr (updated, changes)"
  shows "modernize_run M (Str code) =
           Inr (if changes \<noteq> []
                then mz_applied_report ''Pattern-based'' issues updated changes
                       mz_pattern_applied_closing
                else mz_analysis_report mz_no_fix_lead (strip code) mz_no_fix_closing)"
  using assms strip_nonempty[OF assms(2)]
  by (simp add: modernize_run_def modernize_try_def run_modernize_on_code_def with_cleanup_def
      Let_def)


text \<open>
  Claim C9. Whatever the argument and whatever the backend calls do, each of the three
  tools returns a report and raises nothing: the empty string and an object that is not a
  string give the invalid-input report (and an object whose truth test raises, the
  handler's report), blank code gives the empty-code report, an absent engine gives what
  the pattern-based approximation produces, a timeout of the pyupgrade command gives a
  diagnostic and one of the modernize command the pattern-based result, and any exception
  that leaves the body of the \<^verbatim>\<open>try\<close> gives the handler's report.
\<close>

theorem tools_return_reports:
  "(\<exists>report. pyupgrade_run P arg = Inr report)
   \<and> (\<exists>report. python2to3_run T arg = Inr report)
   \<and> (\<exists>report. modernize_run M arg = Inr report)
   \<and> (arg = Str [] \<or> arg = NotStr (Inr b)
       \<longrightarrow> pyupgrade_run P arg = Inr invalid_input_report
           \<and> python2to3_run T arg = Inr invalid_input_report
           \<and> modernize_run M arg = Inr invalid_input_report)
   \<and> (pyupgrade_run P (NotStr (Inl e)) = Inr (''Error during code modernization: '' @ exn_str e)
        \<and> python2to3_run T (NotStr (Inl e)) = Inr (''Error during migration: '' @ exn_str e)
        \<and> modernize_run M (NotStr (Inl e)) = Inr (''Error during modernization: '' @ exn_str e))
   \<and> (code \<noteq> [] \<and> strip code = []
       \<longrightarrow> pyupgrade_run P (Str code) = Inr empty_code_report
           \<and> python2to3_run T (Str code) = Inr empty_code_report
           \<and> modernize_run M (Str code) = Inr empty_code_report)
   \<and> (pyupgrade_absent P \<and> strip code \<noteq> [] \<and> pu_ast_parse P (strip code) = Inr ()
       \<longrightarrow> pyupgrade_run P (Str code) =
             (case pu_pattern_based_fallback P (strip code) of
                Inr report \<Rightarrow> Inr report
              | Inl e \<Rightarrow> Inr (''Error during code modernization: '' @ exn_str e)))
   \<and> (lib2to3_absent T \<and> strip code \<noteq> []
        \<and> p23_detect T (strip code) = Inr ps \<and> ps \<noteq> []
        \<and> p23_pattern_based_migration T (strip code) = Inr (migrated, changes)
       \<longrightarrow> python2to3_run T (Str code) =
             Inr (if changes \<noteq> [] then p23_pattern_report ps migrated changes
                  else p23_no_fix_report ps (strip code)))
   \<and> (modernize_absent M \<and> strip code \<noteq> []
        \<and> mz_detect M (strip code) = Inr issues
        \<and> mz_pattern_based_modernization M (strip code) = Inr (updated, changes')
       \<longrightarrow> modernize_run M (Str code) =
             Inr (if changes' \<noteq> []
                  then mz_applied_report ''Pattern-based Fallback'' issues updated changes'
                         mz_fallback_applied_closing
                  else mz_analysis_report [] (strip code) mz_fallback_analysis_closing))
   \<and> (check_pyupgrade_available P = Inr True \<and> strip code \<noteq> []
        \<and> pu_ast_parse P (strip code) = Inr () \<and> pu_write_temp P (strip code) = Inr ()
        \<and> pu_subprocess P (strip code) = Inl (TimeoutExpired m) \<and> pu_cleanup P = Inr ()
       \<longrightarrow> pyupgrade_run P (Str code) = Inr ''Error: pyupgrade command timed out'')
   \<and> (check_modernize_available M = Inr True \<and> strip code \<noteq> []
        \<and> mz_detect M (strip code) = Inr issues \<and> mz_write_temp M (strip code) = Inr ()
        \<and> mz_subprocess M (strip code) = Inl (TimeoutExpired m') \<and> mz_cleanup M = Inr ()
        \<and> mz_pattern_based_modernization M (strip code) = Inr (updated, changes')
       \<longrightarrow> modernize_run M (Str code) =
             Inr (if changes' \<noteq> []
                  then mz_applied_report ''Pattern-based'' issues updated changes'
                         mz_pattern_applied_closing
                  else mz_analysis_report mz_no_fix_lead (strip code) mz_no_fix_closing))
   \<and> (pyupgrade_try P arg = Inl x \<longrightarrow>
        pyupgrade_run P arg = Inr (''Error during code modernization: '' @ exn_str x))
   \<and> (python2to3_try T arg = Inl x \<longrightarrow>
        python2to3_run T arg = Inr (''Error during migration: '' @ exn_str x))
   \<and> (modernize_try M arg = Inl x \<longrightarrow>
        modernize_run M arg = Inr (''Error during modernization: '' @ exn_str x))"
proof -
  have r: "(\<exists>report. pyupgrade_run P arg = Inr report)
           \<and> (\<exists>report. python2to3_run T arg = Inr report)
           \<and> (\<exists>report. modernize_run M arg = Inr report)"
    using pyupgrade_run_returns python2to3_run_returns modernize_run_returns by blast
  have i: "arg = Str [] \<or> arg = NotStr (Inr b)
       \<longrightarrow> pyupgrade_run P arg = Inr invalid_input_report
           \<and> python2to3_run T arg = Inr invalid_input_report
           \<and> modernize_run M arg = Inr invalid_input_report"
    using invalid_input_reports[of arg b P T M] by blast
  have c: "code \<noteq> [] \<and> strip code = []
       \<longrightarrow> pyupgrade_run P (Str code) = Inr empty_code_report
           \<and> python2to3_run T (Str code) = Inr empty_code_report
           \<and> modernize_run M (Str code) = Inr empty_code_report"
    using empty_code_reports[of code P T M] by blast
  have a1: "pyupgrade_absent P \<and> strip code \<noteq> [] \<and> pu_ast_parse P (strip code) = Inr ()
       \<longrightarrow> pyupgrade_run P (Str code) =
             (case pu_pattern_based_fallback P (strip code) of
                Inr report \<Rightarrow> Inr report
              | Inl e \<Rightarrow> Inr (''Error during code modernization: '' @ exn_str e))"
    using pyupgrade_missing_backend[of P code] by blast
  have a2: "lib2to3_absent T \<and> strip code \<noteq> []
        \<and> p23_detect T (strip code) = Inr ps \<and> ps \<noteq> []
        \<and> p23_pattern_based_migration T (strip code) = Inr (migrated, changes)
       \<longrightarrow> python2to3_run T (Str code) =
             Inr (if changes \<noteq> [] then p23_pattern_report ps migrated changes
                  else p23_no_fix_report ps (strip code))"
    using python2to3_missing_backend[of T code ps migrated changes] by blast
  have a3: "modernize_absent M \<and> strip code \<noteq> []
        \<and> mz_detect M (strip code) = Inr issues
        \<and> mz_pattern_based_modernization M (strip code) = Inr (updated, changes')
       \<longrightarrow> modernize_run M (Str code) =
             Inr (if changes' \<noteq> []
                  then mz_applied_report ''Pattern-based Fallback'' issues updated changes'
                         mz_fallback_applied_closing
                  else mz_analysis_report [] (strip code) mz_fallback_analysis_closing)"
    using modernize_missing_backend[of M code issues updated changes'] by blast
  have t1: "check_pyupgrade_available P = Inr True \<and> strip code \<noteq> []
        \<and> pu_ast_parse P (strip code) = Inr () \<and> pu_write_temp P (strip code) = Inr ()
        \<and> pu_subprocess P (strip code) = Inl (TimeoutExpired m) \<and> pu_cleanup P = Inr ()
       \<longrightarrow> pyupgrade_run P (Str code) = Inr ''Error: pyupgrade command timed out''"
    using pyupgrade_timeout[of P code m] by blast
  have t2: "check_modernize_available M = Inr True \<and> strip code \<noteq> []
        \<and> mz_detect M (strip code) = Inr issues \<and> mz_write_temp M (strip code) = Inr ()
        \<and> mz_subprocess M (strip code) = Inl (TimeoutExpired m') \<and> mz_cleanup M = Inr ()
        \<and> mz_pattern_based_modernization M (strip code) = Inr (updated, changes')
       \<longrightarrow> modernize_run M (Str code) =
             Inr (if changes' \<noteq> []
                  then mz_applied_report ''Pattern-based'' issues updated changes'
                         mz_pattern_applied_closing
                  else mz_analysis_report mz_no_fix_lead (strip code) mz_no_fix_closing)"
    using modernize_timeout[of M code issues m' updated changes'] by blast
  from r i raising_truth_test_reports[of P e T M] c a1 a2 a3 t1 t2
    internal_exception_reports[of P arg x T M]
  show ?thesis by (intro conjI) (erule conjE | assumption)+
qed


theorem tools_return_reports_witness:
  \<open>pyupgrade_run example_pyupgrade (Str ''x = 1\<newline>'')
     = Inr (''Fallback Analysis Complete - No changes needed\<newline>\<newline>''
            @ ''The code appears to be using modern Python patterns.\<newline>\<newline>''
            @ ''Original code:\<newline>'' @ fence ''x = 1'')
   \<and> python2to3_run example_python2to3 (Str ''print "a"\<newline>'')
     = Inr (p23_pattern_report [''print_statement''] ''print("a")''
              [''Converted print statement to print() function''])
   \<and> modernize_run example_modernize (Str ''x = 1\<newline>'')
     = Inr (mz_analysis_report [] ''x = 1'' mz_fallback_analysis_closing)
   \<and> pyupgrade_run example_pyupgrade_timeout (Str ''x = 1\<newline>'')
     = Inr ''Error: pyupgrade command timed out''
   \<and> modernize_run example_modernize_timeout (Str ''x = 1\<newline>'')
     = Inr (mz_analysis_report mz_no_fix_lead ''x = 1'' mz_no_fix_closing)
   \<and> pyupgrade_run example_pyupgrade (Str []) = Inr invalid_input_report
   \<and> python2to3_run example_python2to3 (Str ''  \<newline>'') = Inr empty_code_report
   \<and> modernize_run example_modernize (NotStr (Inl (OtherException ''boom'')))
     = Inr ''Error during modernization: boom''\<close>
proof -
  have s1: "strip ''x = 1\<newline>'' = ''x = 1''" by code_simp
  have s2: \<open>strip ''print "a"\<newline>'' = ''print "a"''\<close> by code_simp
  have s3: "strip ''  \<newline>'' = []" by code_simp
  have d: \<open>contains ''print "'' ''print "a"''\<close> by code_simp
  have ab1: "pyupgrade_absent example_pyupgrade"
    by (simp add: pyupgrade_absent_def probe_fails_def example_pyupgrade_def)
  have ab2: "lib2to3_absent example_python2to3"
    by (simp add: lib2to3_absent_def example_python2to3_def)
  have ab3: "modernize_absent example_modernize"
    by (simp add: modernize_absent_def probe_fails_def example_modernize_def)
  have av1: "check_pyupgrade_available example_pyupgrade_timeout = Inr True"
    by (simp add: check_pyupgrade_available_def example_pyupgrade_timeout_def)
  have av2: "check_modernize_available example_modernize_timeout = Inr True"
    by (simp add: check_modernize_available_def example_modernize_timeout_def)
  note t1 = tools_return_reports[where P = example_pyupgrade and arg = "Str []"
      and M = example_modernize and code = "''x = 1\<newline>''"
      and issues = "[]" and updated = "''x = 1''" and changes' = "[]"]
  note t2 = tools_return_reports[where T = example_python2to3
      and code = \<open>''print "a"\<newline>''\<close> and ps = "[''print_statement'']"
      and migrated = \<open>''print("a")''\<close>
      and changes = "[''Converted print statement to print() function'']"]
  note t3 = tools_return_reports[where P = example_pyupgrade_timeout
      and M = example_modernize_timeout and code = "''x = 1\<newline>''"
      and m = "''timed out after 30 seconds''" and m' = "''timed out after 30 seconds''"
      and issues = "[]" and updated = "''x = 1''" and changes' = "[]"]
  note t4 = tools_return_reports[where T = example_python2to3 and code = "''  \<newline>''"]
  note t5 = tools_return_reports[where M = example_modernize
      and e = "OtherException ''boom''"]
  have a1: "pyupgrade_run example_pyupgrade (Str ''x = 1\<newline>'')
     = Inr (''Fallback Analysis Complete - No changes needed\<newline>\<newline>''
            @ ''The code appears to be using modern Python patterns.\<newline>\<newline>''
            @ ''Original code:\<newline>'' @ fence ''x = 1'')"
    using t1 ab1 by (simp add: s1 example_pyupgrade_def example_compile_def)
  have a2: \<open>python2to3_run example_python2to3 (Str ''print "a"\<newline>'')
     = Inr (p23_pattern_report [''print_statement''] ''print("a")''
              [''Converted print statement to print() function''])\<close>
    using t2 ab2 by (simp add: s2 d example_python2to3_def)
  have a3: "modernize_run example_modernize (Str ''x = 1\<newline>'')
     = Inr (mz_analysis_report [] ''x = 1'' mz_fallback_analysis_closing)"
    using t1 ab3 by (simp add: s1 example_modernize_def)
  have a4: "pyupgrade_run example_pyupgrade_timeout (Str ''x = 1\<newline>'')
     = Inr ''Error: pyupgrade command timed out''"
    using t3 av1
    by (simp add: s1 example_pyupgrade_timeout_def example_pyupgrade_def example_compile_def)
  have a5: "modernize_run example_modernize_timeout (Str ''x = 1\<newline>'')
     = Inr (mz_analysis_report mz_no_fix_lead ''x = 1'' mz_no_fix_closing)"
    using t3 av2 by (simp add: s1 example_modernize_timeout_def example_modernize_def)
  have a6: "pyupgrade_run example_pyupgrade (Str []) = Inr invalid_input_report"
    using t1 by simp
  have a7: "python2to3_run example_python2to3 (Str ''  \<newline>'') = Inr empty_code_report"
    using t4 by (simp add: s3)
  have a8: "modernize_run example_modernize (NotStr (Inl (OtherException ''boom'')))
     = Inr ''Error during modernization: boom''"
    using t5 by simp
  from a1 a2 a3 a4 a5 a6 a7 a8 show ?thesis by blast
qed

end
